theory Spec2Isabelle
  imports Complex_Main
begin

section \<open>The risk-scoring core of P1-Axis (EOT/scoring.py)\<close>

text \<open>
  The development embeds \<^verbatim>\<open>src/EOT/scoring.py\<close>: the calibration
  \<^verbatim>\<open>_calibrate_score\<close>, the threshold mapping \<^verbatim>\<open>_map_to_status_action\<close> and
  the entry point \<^verbatim>\<open>calculate_score\<close>.

  The pipeline \<open>calculate_score\<close> is modelled with Python floats read as real numbers: its
  arithmetic (one division, one comparison chain, one affine rescaling, one rounding) is
  exact over \<^typ>\<open>real\<close>. That reading is used for the properties that hold whatever the
  roundings of the machine are. Where the value of a rounding decides the result, the
  calibration is modelled a second time over binary64 floats (\<open>calibrate_score_f\<close>), with
  round-to-nearest-even after every operation, infinities, NaN and the exceptions Python
  raises. Python's \<^verbatim>\<open>round\<close> on a float rounds half to even; \<open>py_round\<close> below does
  the same.

  The module imports \<^verbatim>\<open>extract_all_features\<close> from \<^verbatim>\<open>.features\<close>,
  \<^verbatim>\<open>DEFAULT_WEIGHTS\<close>, \<^verbatim>\<open>weighted_sum\<close> and \<^verbatim>\<open>hard_rules\<close> from \<^verbatim>\<open>.rules\<close> and
  \<^verbatim>\<open>top_reason_codes\<close> from \<^verbatim>\<open>.explainability\<close>. Those three modules are not among the
  sources, so the five names are parameters of the model (the record \<open>collaborators\<close>):
  whatever is proved for every value of the record holds for the real modules as long as they
  are functions of their arguments. A third embedding, \<open>calculate_score_st\<close>, makes the state
  explicit that the function and its collaborators can read and write between two calls.
\<close>

subsection \<open>Data model\<close>

text \<open>JSON-compatible values: the \<^verbatim>\<open>Any\<close> of \<^verbatim>\<open>Dict[str, Any]\<close>.\<close>

datatype json =
    JNull
  | JBool bool
  | JNum real
  | JStr string
  | JArr "json list"
  | JObj "(string \<times> json) list"

text \<open>The payload is a \<^verbatim>\<open>Dict[str, Any]\<close>: a finite map from keys to values.\<close>

type_synonym payload = "string \<rightharpoonup> json"

text \<open>
  A feature value is numeric or boolean. A \<^verbatim>\<open>FeatureSet\<close> and a weight configuration
  are dictionaries; they are kept as association lists in insertion order, the order in which
  Python iterates over them, and looked up with \<^const>\<open>map_of\<close>.
\<close>

datatype fvalue = Num real | Flag bool

type_synonym FeatureSet = "(string \<times> fvalue) list"

type_synonym WeightConfig = "(string \<times> real) list"

type_synonym Contribution = "string \<times> real"

text \<open>A reason code is the dictionary \<^verbatim>\<open>{"code": ..., "contribution": ...}\<close>.\<close>

record ReasonCode =
  code :: string
  contribution :: real

datatype RiskStatus = LEGITIMO | DESCONFIAVEL | ALTO_RISCO

datatype RecommendedAction = ALLOW | STEP_UP_AUTH | BLOCK

text \<open>The metadata dictionary has exactly the three keys written in its literal.\<close>

record Metadata =
  model_version :: string
  hard_rule_fired :: bool
  "context" :: json

record ScoreResult =
  score :: int
  status :: RiskStatus
  recommended_action :: RecommendedAction
  reason_codes :: "ReasonCode list"
  metadata :: Metadata

text \<open>
  What the module writes to its logger. The formatted text of a message is abstracted to the
  values interpolated into it; the logger's sink is the list of records written so far.
\<close>

datatype log_record =
    LogStart
  | LogFeatures FeatureSet
  | LogHardRule bool string
  | LogRaw real "Contribution list"
  | LogCalibrated int
  | LogFinal int RiskStatus RecommendedAction

text \<open>The imported names, as parameters.\<close>

record collaborators =
  extract_all_features :: "payload \<Rightarrow> FeatureSet"
  hard_rules :: "FeatureSet \<Rightarrow> bool \<times> string"
  weighted_sum :: "FeatureSet \<Rightarrow> WeightConfig \<Rightarrow> real \<times> Contribution list"
  top_reason_codes :: "Contribution list \<Rightarrow> nat \<Rightarrow> ReasonCode list"
  DEFAULT_WEIGHTS :: WeightConfig

subsection \<open>Core functions\<close>

text \<open>Python's \<^verbatim>\<open>int(round(x))\<close> on a float: to the nearest integer, a tie to the even one.\<close>

definition py_round :: "real \<Rightarrow> int" where
  "py_round x =
     (let f = \<lfloor>x\<rfloor>; d = x - of_int f
      in if d < 1 / 2 then f
         else if 1 / 2 < d then f + 1
         else if even f then f else f + 1)"

text \<open>
  \<^verbatim>\<open>_calibrate_score(score_raw, max_abs_weight)\<close>, over exact reals. The same function over
  binary64 floats is \<open>calibrate_score_f\<close> below.
\<close>

definition calibrate_score :: "real \<Rightarrow> real \<Rightarrow> int" where
  "calibrate_score score_raw max_abs_weight =
     (let max_abs_weight = (if max_abs_weight \<le> 0 then 1 else max_abs_weight);
          normalized = max (min (score_raw / max_abs_weight) 1) (- 1);
          scaled = (normalized + 1) * 50
      in py_round scaled)"

text \<open>\<^verbatim>\<open>_map_to_status_action(score)\<close>.\<close>

definition map_to_status_action :: "int \<Rightarrow> RiskStatus \<times> RecommendedAction" where
  "map_to_status_action s =
     (if s \<ge> 75 then (LEGITIMO, ALLOW)
      else if s \<ge> 50 then (DESCONFIAVEL, STEP_UP_AUTH)
      else (ALTO_RISCO, BLOCK))"

text \<open>
  \<^verbatim>\<open>calculate_score(payload, weights=None)\<close>, statement by statement. The logger's sink is
  threaded through; \<^verbatim>\<open>weights or DEFAULT_WEIGHTS\<close> takes the default for \<^verbatim>\<open>None\<close> and
  for the empty dictionary, which is falsy in Python.
\<close>

definition calculate_score ::
  "collaborators \<Rightarrow> payload \<Rightarrow> WeightConfig option \<Rightarrow> log_record list
     \<Rightarrow> ScoreResult \<times> log_record list" where
  "calculate_score E pl weights lg0 =
     (let lg1 = lg0 @ [LogStart];
          w = (case weights of
                 None \<Rightarrow> DEFAULT_WEIGHTS E
               | Some ws \<Rightarrow> if ws = [] then DEFAULT_WEIGHTS E else ws);
          features = extract_all_features E pl;
          lg2 = lg1 @ [LogFeatures features];
          (fired_rule, hard_code) = hard_rules E features;
          lg3 = lg2 @ [LogHardRule fired_rule hard_code];
          (score_raw, contributions) = weighted_sum E features w;
          lg4 = lg3 @ [LogRaw score_raw contributions];
          dynamic_max = max 1 (sum_list (map (\<lambda>(k, v). \<bar>v\<bar>) w) / 2);
          sc = calibrate_score score_raw dynamic_max;
          lg5 = lg4 @ [LogCalibrated sc];
          (st, action) = map_to_status_action sc;
          reasons = top_reason_codes E contributions 5;
          reasons = (if fired_rule
                     then \<lparr>code = hard_code, contribution = - 999\<rparr> # reasons
                     else reasons);
          md = \<lparr>model_version = ''v0.1.0'',
                hard_rule_fired = fired_rule,
                context = (case pl ''context'' of None \<Rightarrow> JObj [] | Some c \<Rightarrow> c)\<rparr>;
          lg6 = lg5 @ [LogFinal sc st action]
      in (\<lparr>score = sc, status = st, recommended_action = action,
           reason_codes = reasons, metadata = md\<rparr>, lg6))"

subsection \<open>Names for the intermediate values of \<open>calculate_score\<close>\<close>

text \<open>The configuration in force: the value of \<^verbatim>\<open>w\<close> after line 82.\<close>

definition effective_weights :: "collaborators \<Rightarrow> WeightConfig option \<Rightarrow> WeightConfig" where
  "effective_weights E weights =
     (case weights of
        None \<Rightarrow> DEFAULT_WEIGHTS E
      | Some ws \<Rightarrow> if ws = [] then DEFAULT_WEIGHTS E else ws)"

text \<open>The value of \<^verbatim>\<open>dynamic_max\<close> (line 97).\<close>

definition dynamic_max :: "WeightConfig \<Rightarrow> real" where
  "dynamic_max w = max 1 (sum_list (map (\<lambda>(k, v). \<bar>v\<bar>) w) / 2)"

text \<open>The values of \<^verbatim>\<open>score_raw\<close> and \<^verbatim>\<open>contributions\<close> (line 93).\<close>

definition raw_of :: "collaborators \<Rightarrow> payload \<Rightarrow> WeightConfig option \<Rightarrow> real" where
  "raw_of E pl weights =
     fst (weighted_sum E (extract_all_features E pl) (effective_weights E weights))"

definition contributions_of ::
  "collaborators \<Rightarrow> payload \<Rightarrow> WeightConfig option \<Rightarrow> Contribution list" where
  "contributions_of E pl weights =
     snd (weighted_sum E (extract_all_features E pl) (effective_weights E weights))"

text \<open>The values of \<^verbatim>\<open>fired_rule\<close> and \<^verbatim>\<open>hard_code\<close> (line 89).\<close>

definition fired_of :: "collaborators \<Rightarrow> payload \<Rightarrow> bool" where
  "fired_of E pl = fst (hard_rules E (extract_all_features E pl))"

definition hard_code_of :: "collaborators \<Rightarrow> payload \<Rightarrow> string" where
  "hard_code_of E pl = snd (hard_rules E (extract_all_features E pl))"

subsection \<open>The collaborators, as the specification describes them\<close>

text \<open>A boolean feature counts as 0 or 1, as Python's \<^verbatim>\<open>True * w\<close> does.\<close>

fun fnum :: "fvalue \<Rightarrow> real" where
  "fnum (Num r) = r"
| "fnum (Flag b) = (if b then 1 else 0)"

text \<open>
  Modelled from the spec: \<^verbatim>\<open>weighted_sum\<close> of \<^verbatim>\<open>rules.py\<close>, which is not among the
  sources. Section 4.3: for every feature present in both the feature set and the weights,
  the contribution is feature value times weight, booleans as 0/1; the raw score is the sum
  of all contributions. The features are visited in the order of the feature set.
\<close>

fun contributions_spec :: "FeatureSet \<Rightarrow> WeightConfig \<Rightarrow> Contribution list" where
  "contributions_spec [] w = []"
| "contributions_spec ((name, v) # fs) w =
     (case map_of w name of
        None \<Rightarrow> contributions_spec fs w
      | Some wt \<Rightarrow> (name, fnum v * wt) # contributions_spec fs w)"

definition weighted_sum_spec :: "FeatureSet \<Rightarrow> WeightConfig \<Rightarrow> real \<times> Contribution list" where
  "weighted_sum_spec fs w =
     (let cs = contributions_spec fs w in (sum_list (map snd cs), cs))"

text \<open>
  Modelled from the spec: \<^verbatim>\<open>top_reason_codes\<close> of \<^verbatim>\<open>explainability.py\<close>, which is
  not among the sources. Section 4.6: the \<^verbatim>\<open>top_k\<close> contributions by absolute magnitude,
  descending, ties in the original computation order (a stable sort). The sort is an
  insertion sort that puts a contribution in front of the first one that is not larger in
  magnitude.
\<close>

fun rank_insert :: "Contribution \<Rightarrow> Contribution list \<Rightarrow> Contribution list" where
  "rank_insert c [] = [c]"
| "rank_insert c (d # ds) =
     (if \<bar>snd d\<bar> \<le> \<bar>snd c\<bar> then c # d # ds else d # rank_insert c ds)"

definition ranked :: "Contribution list \<Rightarrow> Contribution list" where
  "ranked cs = foldr rank_insert cs []"

definition to_reason :: "Contribution \<Rightarrow> ReasonCode" where
  "to_reason c = \<lparr>code = fst c, contribution = snd c\<rparr>"

definition top_reason_codes_spec :: "Contribution list \<Rightarrow> nat \<Rightarrow> ReasonCode list" where
  "top_reason_codes_spec cs top_k = map to_reason (take top_k (ranked cs))"

text \<open>The order the specification asks of a list of reason codes.\<close>

definition by_magnitude :: "ReasonCode list \<Rightarrow> bool" where
  "by_magnitude rs = sorted_wrt (\<lambda>a b. \<bar>contribution b\<bar> \<le> \<bar>contribution a\<bar>) rs"

text \<open>
  Modelled from the spec: an instance of the two collaborators the specification leaves
  open, \<^verbatim>\<open>extract_all_features\<close> (section 4.1: total, deterministic, numeric and boolean
  signals) and \<^verbatim>\<open>hard_rules\<close> (section 4.2: an ordered list of predicates, the first match
  gives the code; the example of the specification is a revoked-credential flag), used to
  run \<open>calculate_score\<close> on concrete payloads. The extractor reads the scalar entries of the
  \<^verbatim>\<open>behavior\<close> group; anything else yields no feature.
\<close>

fun feature_of :: "string \<times> json \<Rightarrow> FeatureSet" where
  "feature_of (k, JNum r) = [(k, Num r)]"
| "feature_of (k, JBool b) = [(k, Flag b)]"
| "feature_of (k, _) = []"

definition sample_extract :: "payload \<Rightarrow> FeatureSet" where
  "sample_extract pl =
     (case pl ''behavior'' of
        Some (JObj kvs) \<Rightarrow> concat (map feature_of kvs)
      | _ \<Rightarrow> [])"

definition sample_rules :: "FeatureSet \<Rightarrow> bool \<times> string" where
  "sample_rules fs =
     (if map_of fs ''revoked_credential'' = Some (Flag True)
      then (True, ''REVOKED_CREDENTIAL'')
      else (False, []))"

definition sample_env :: "WeightConfig \<Rightarrow> collaborators" where
  "sample_env dw =
     \<lparr>extract_all_features = sample_extract,
      hard_rules = sample_rules,
      weighted_sum = weighted_sum_spec,
      top_reason_codes = top_reason_codes_spec,
      DEFAULT_WEIGHTS = dw\<rparr>"

definition behavior_payload :: "(string \<times> json) list \<Rightarrow> payload" where
  "behavior_payload kvs = [''behavior'' \<mapsto> JObj kvs]"

text \<open>
  The same collaborators with a rule engine in which no rule ever fires: what
  \<open>calculate_score\<close> is compared with to see what a fired rule changes.
\<close>

definition without_hard_rules :: "collaborators \<Rightarrow> collaborators" where
  "without_hard_rules E = E\<lparr>hard_rules := \<lambda>fs. (False, [])\<rparr>"

subsection \<open>The calibration over binary64 floats\<close>

text \<open>
  A Python float: a finite double, given by the real number it denotes, an infinity or NaN.
  The sign of a zero is not kept; no operation of the module observes it.
\<close>

datatype pyfloat = Fin real | PInf | NInf | NaN

datatype py_error = ValueError | OverflowError | ZeroDivisionError

text \<open>
  Rounding a real number to binary64, to nearest, ties to even. A double has 53 significant
  bits; in the binade \<open>[2^e, 2^(e+1))\<close> the doubles are the multiples of \<open>2^(e-52)\<close>, below
  \<open>2^(-1022)\<close> (the subnormal range) the multiples of \<open>2^(-1074)\<close>; a result of magnitude
  \<open>2^1024\<close> or more is an infinity.
\<close>

definition binade :: "real \<Rightarrow> int" where
  "binade x = max \<lfloor>log 2 \<bar>x\<bar>\<rfloor> (- 1022)"

definition to_double :: "real \<Rightarrow> pyfloat" where
  "to_double x =
     (if x = 0 then Fin 0
      else let q = binade x - 52;
               y = of_int (py_round (x / 2 powi q)) * 2 powi q
           in if 2 powi 1024 \<le> \<bar>y\<bar> then (if 0 < x then PInf else NInf) else Fin y)"

text \<open>
  The arithmetic and the comparisons of floats. Every arithmetic result is rounded;
  \<open>inf - inf\<close>, \<open>0 * inf\<close> and \<open>inf / inf\<close> are NaN; NaN compares false with
  everything; a division by zero raises.
\<close>

fun fsign :: "pyfloat \<Rightarrow> real" where
  "fsign (Fin a) = sgn a"
| "fsign PInf = 1"
| "fsign NInf = - 1"
| "fsign NaN = 0"

definition signed_inf :: "real \<Rightarrow> pyfloat" where
  "signed_inf s = (if s = 0 then NaN else if 0 < s then PInf else NInf)"

fun fadd :: "pyfloat \<Rightarrow> pyfloat \<Rightarrow> pyfloat" where
  "fadd (Fin a) (Fin b) = to_double (a + b)"
| "fadd NaN y = NaN"
| "fadd x NaN = NaN"
| "fadd PInf NInf = NaN"
| "fadd NInf PInf = NaN"
| "fadd PInf y = PInf"
| "fadd NInf y = NInf"
| "fadd x PInf = PInf"
| "fadd x NInf = NInf"

fun fmul :: "pyfloat \<Rightarrow> pyfloat \<Rightarrow> pyfloat" where
  "fmul (Fin a) (Fin b) = to_double (a * b)"
| "fmul NaN y = NaN"
| "fmul x NaN = NaN"
| "fmul x y = signed_inf (fsign x * fsign y)"

fun fdiv :: "pyfloat \<Rightarrow> pyfloat \<Rightarrow> py_error + pyfloat" where
  "fdiv x (Fin b) =
     (if b = 0 then Inl ZeroDivisionError
      else case x of
             Fin a \<Rightarrow> Inr (to_double (a / b))
           | NaN \<Rightarrow> Inr NaN
           | _ \<Rightarrow> Inr (signed_inf (fsign x * sgn b)))"
| "fdiv NaN y = Inr NaN"
| "fdiv x NaN = Inr NaN"
| "fdiv (Fin a) y = Inr (Fin 0)"
| "fdiv x y = Inr NaN"

fun flt :: "pyfloat \<Rightarrow> pyfloat \<Rightarrow> bool" where
  "flt (Fin a) (Fin b) = (a < b)"
| "flt NaN y = False"
| "flt x NaN = False"
| "flt x NInf = False"
| "flt PInf y = False"
| "flt x y = True"

definition fle :: "pyfloat \<Rightarrow> pyfloat \<Rightarrow> bool" where
  "fle x y = (x \<noteq> NaN \<and> y \<noteq> NaN \<and> (flt x y \<or> x = y))"

text \<open>
  The built-ins \<^verbatim>\<open>min(a, b)\<close> and \<^verbatim>\<open>max(a, b)\<close> return the first argument unless the
  second is strictly smaller (larger); with a NaN the comparison is false and the first
  argument is returned. \<^verbatim>\<open>int(round(x))\<close> raises on NaN and on an infinity.
\<close>

definition py_min :: "pyfloat \<Rightarrow> pyfloat \<Rightarrow> pyfloat" where
  "py_min a b = (if flt b a then b else a)"

definition py_max :: "pyfloat \<Rightarrow> pyfloat \<Rightarrow> pyfloat" where
  "py_max a b = (if flt a b then b else a)"

fun py_abs :: "pyfloat \<Rightarrow> pyfloat" where
  "py_abs (Fin a) = Fin \<bar>a\<bar>"
| "py_abs NaN = NaN"
| "py_abs x = PInf"

fun int_round :: "pyfloat \<Rightarrow> py_error + int" where
  "int_round (Fin y) = Inr (py_round y)"
| "int_round NaN = Inl ValueError"
| "int_round x = Inl OverflowError"

text \<open>
  \<^verbatim>\<open>sum\<close> starts from the integer 0 and adds from left to right (\<open>plain_sum\<close>); CPython
  from 3.12 on carries a compensation term along. The summation is therefore a parameter
  \<open>py_sum\<close> of the definitions below.
\<close>

definition plain_sum :: "pyfloat list \<Rightarrow> pyfloat" where
  "plain_sum xs = foldl fadd (Fin 0) xs"

text \<open>\<^verbatim>\<open>_calibrate_score\<close> (lines 52 to 59) over floats.\<close>

definition calibrate_score_f :: "pyfloat \<Rightarrow> pyfloat \<Rightarrow> py_error + int" where
  "calibrate_score_f score_raw max_abs_weight =
     (let max_abs_weight = (if fle max_abs_weight (Fin 0) then Fin 1 else max_abs_weight)
      in case fdiv score_raw max_abs_weight of
           Inl e \<Rightarrow> Inl e
         | Inr q \<Rightarrow>
             (let normalized = py_max (py_min q (Fin 1)) (Fin (- 1));
                  scaled = fmul (fadd normalized (Fin 1)) (Fin 50)
              in int_round scaled))"

text \<open>
  Line 97, \<^verbatim>\<open>max(1.0, sum(abs(v) for v in w.values()) / 2.0)\<close>, and line 98, the call of
  \<^verbatim>\<open>_calibrate_score\<close> on it.
\<close>

definition dynamic_max_f ::
  "(pyfloat list \<Rightarrow> pyfloat) \<Rightarrow> (string \<times> pyfloat) list \<Rightarrow> py_error + pyfloat" where
  "dynamic_max_f py_sum w =
     (case fdiv (py_sum (map (\<lambda>(k, v). py_abs v) w)) (Fin 2) of
        Inl e \<Rightarrow> Inl e
      | Inr h \<Rightarrow> Inr (py_max (Fin 1) h))"

definition score_f ::
  "(pyfloat list \<Rightarrow> pyfloat) \<Rightarrow> pyfloat \<Rightarrow> (string \<times> pyfloat) list \<Rightarrow> py_error + int" where
  "score_f py_sum score_raw w =
     (case dynamic_max_f py_sum w of
        Inl e \<Rightarrow> Inl e
      | Inr dm \<Rightarrow> calibrate_score_f score_raw dm)"

text \<open>
  Modelled from the spec: the calibration contract of section 4.4, in the specification's
  words and in the same float arithmetic: the bound is \<open>max(1.0, sum(|w|) / 2)\<close>, the raw
  score divided by it is clamped to \<open>[-1, 1]\<close>, rescaled by \<open>(normalized + 1) * 50\<close> and
  rounded to the nearest integer.
\<close>

definition clamp_f :: "pyfloat \<Rightarrow> pyfloat \<Rightarrow> pyfloat \<Rightarrow> pyfloat" where
  "clamp_f x lo hi = (if flt x lo then lo else if flt hi x then hi else x)"

definition rescaled_spec ::
  "(pyfloat list \<Rightarrow> pyfloat) \<Rightarrow> pyfloat \<Rightarrow> (string \<times> pyfloat) list \<Rightarrow> py_error + pyfloat" where
  "rescaled_spec py_sum raw w =
     (case fdiv (py_sum (map (\<lambda>kv. py_abs (snd kv)) w)) (Fin 2) of
        Inl e \<Rightarrow> Inl e
      | Inr h \<Rightarrow>
          (case fdiv raw (py_max (Fin 1) h) of
             Inl e \<Rightarrow> Inl e
           | Inr q \<Rightarrow> Inr (fmul (fadd (clamp_f q (Fin (- 1)) (Fin 1)) (Fin 1)) (Fin 50))))"

definition calibrate_spec_f ::
  "(pyfloat list \<Rightarrow> pyfloat) \<Rightarrow> pyfloat \<Rightarrow> (string \<times> pyfloat) list \<Rightarrow> py_error + int" where
  "calibrate_spec_f py_sum raw w =
     (case rescaled_spec py_sum raw w of Inl e \<Rightarrow> Inl e | Inr s \<Rightarrow> int_round s)"

subsection \<open>\<open>calculate_score\<close> with its state explicit\<close>

text \<open>
  What can differ between two calls: the logger's sink, the module-level dictionary
  \<^verbatim>\<open>DEFAULT_WEIGHTS\<close> (a mutable object that \<^verbatim>\<open>w\<close> aliases when no weights are supplied),
  the list objects on the heap (line 107 inserts in place into the list that
  \<^verbatim>\<open>top_reason_codes\<close> returned) and whatever else the collaborators keep (\<open>hidden\<close>).
\<close>

record world =
  logger :: "log_record list"
  module_weights :: WeightConfig
  heap :: "nat \<Rightarrow> ReasonCode list"
  next_addr :: nat
  hidden :: nat

record st_collaborators =
  extract_st :: "payload \<Rightarrow> world \<Rightarrow> FeatureSet \<times> world"
  rules_st :: "FeatureSet \<Rightarrow> world \<Rightarrow> (bool \<times> string) \<times> world"
  weighted_sum_st ::
    "FeatureSet \<Rightarrow> WeightConfig \<Rightarrow> world \<Rightarrow> (real \<times> Contribution list) \<times> world"
  top_reason_codes_st :: "Contribution list \<Rightarrow> nat \<Rightarrow> world \<Rightarrow> nat \<times> world"

text \<open>The logger appends; \<^verbatim>\<open>reasons.insert(0, r)\<close> updates the list object in place.\<close>

definition write_log :: "log_record \<Rightarrow> world \<Rightarrow> world" where
  "write_log ev s = s\<lparr>logger := logger s @ [ev]\<rparr>"

definition insert_front :: "nat \<Rightarrow> ReasonCode \<Rightarrow> world \<Rightarrow> world" where
  "insert_front a r s = s\<lparr>heap := (heap s)(a := r # heap s a)\<rparr>"

text \<open>
  The dictionary \<^verbatim>\<open>w\<close> refers to: the supplied one, or the module's, read when it is
  used.
\<close>

definition weights_in_force :: "WeightConfig option \<Rightarrow> world \<Rightarrow> WeightConfig" where
  "weights_in_force weights s =
     (case weights of
        None \<Rightarrow> module_weights s
      | Some ws \<Rightarrow> if ws = [] then module_weights s else ws)"

text \<open>
  \<^verbatim>\<open>calculate_score\<close>, statement by statement, in state-passing style. The
  \<open>reason_codes\<close> of the result is the content of the list object when the function returns.
\<close>

definition calculate_score_st ::
  "st_collaborators \<Rightarrow> payload \<Rightarrow> WeightConfig option \<Rightarrow> world \<Rightarrow> ScoreResult \<times> world" where
  "calculate_score_st C pl weights s0 =
     (let s = write_log LogStart s0;
          w = weights_in_force weights s;
          (features, s) = extract_st C pl s;
          s = write_log (LogFeatures features) s;
          ((fired_rule, hard_code), s) = rules_st C features s;
          s = write_log (LogHardRule fired_rule hard_code) s;
          ((score_raw, contributions), s) = weighted_sum_st C features w s;
          s = write_log (LogRaw score_raw contributions) s;
          w = weights_in_force weights s;
          dynamic_max = max 1 (sum_list (map (\<lambda>(k, v). \<bar>v\<bar>) w) / 2);
          sc = calibrate_score score_raw dynamic_max;
          s = write_log (LogCalibrated sc) s;
          (st, action) = map_to_status_action sc;
          (reasons, s) = top_reason_codes_st C contributions 5 s;
          s = (if fired_rule
               then insert_front reasons \<lparr>code = hard_code, contribution = - 999\<rparr> s
               else s);
          md = \<lparr>model_version = ''v0.1.0'',
                hard_rule_fired = fired_rule,
                context = (case pl ''context'' of None \<Rightarrow> JObj [] | Some c \<Rightarrow> c)\<rparr>;
          s = write_log (LogFinal sc st action) s
      in (\<lparr>score = sc, status = st, recommended_action = action,
           reason_codes = heap s reasons, metadata = md\<rparr>, s))"

text \<open>
  Modelled from the spec: what sections 4.1 to 4.6 and 5 say of the collaborators, whose
  modules are not among the sources: each is deterministic and free of side effects on the
  shared configuration, and each call allocates its own result. The value a collaborator
  returns, and the content of the list \<^verbatim>\<open>top_reason_codes\<close> returns, do not depend on the
  state; none of them changes \<^verbatim>\<open>DEFAULT_WEIGHTS\<close>.
\<close>

definition pure_collaborators :: "st_collaborators \<Rightarrow> bool" where
  "pure_collaborators C \<longleftrightarrow>
     (\<forall>pl s s'. fst (extract_st C pl s) = fst (extract_st C pl s')) \<and>
     (\<forall>fs s s'. fst (rules_st C fs s) = fst (rules_st C fs s')) \<and>
     (\<forall>fs w s s'. fst (weighted_sum_st C fs w s) = fst (weighted_sum_st C fs w s')) \<and>
     (\<forall>cs k s s'.
        heap (snd (top_reason_codes_st C cs k s)) (fst (top_reason_codes_st C cs k s)) =
        heap (snd (top_reason_codes_st C cs k s')) (fst (top_reason_codes_st C cs k s'))) \<and>
     (\<forall>pl s. module_weights (snd (extract_st C pl s)) = module_weights s) \<and>
     (\<forall>fs s. module_weights (snd (rules_st C fs s)) = module_weights s) \<and>
     (\<forall>fs w s. module_weights (snd (weighted_sum_st C fs w s)) = module_weights s) \<and>
     (\<forall>cs k s. module_weights (snd (top_reason_codes_st C cs k s)) = module_weights s)"

definition blank :: world where
  "blank = \<lparr>logger = [], module_weights = [], heap = (\<lambda>a. []), next_addr = 0, hidden = 0\<rparr>"

text \<open>
  Collaborators without state, lifted: \<^verbatim>\<open>top_reason_codes\<close> allocates a new list at every
  call. And a variant that hands out one cached list object, filled at the first call.
\<close>

definition fresh_list :: "ReasonCode list \<Rightarrow> world \<Rightarrow> nat \<times> world" where
  "fresh_list rs s =
     (next_addr s, s\<lparr>heap := (heap s)(next_addr s := rs), next_addr := Suc (next_addr s)\<rparr>)"

definition lift :: "collaborators \<Rightarrow> st_collaborators" where
  "lift E =
     \<lparr>extract_st = (\<lambda>pl s. (extract_all_features E pl, s)),
      rules_st = (\<lambda>fs s. (hard_rules E fs, s)),
      weighted_sum_st = (\<lambda>fs w s. (weighted_sum E fs w, s)),
      top_reason_codes_st = (\<lambda>cs k s. fresh_list (top_reason_codes E cs k) s)\<rparr>"

definition cached_list :: "ReasonCode list \<Rightarrow> world \<Rightarrow> nat \<times> world" where
  "cached_list rs s = (0, if heap s 0 = [] then s\<lparr>heap := (heap s)(0 := rs)\<rparr> else s)"

definition caching :: "collaborators \<Rightarrow> st_collaborators" where
  "caching E = (lift E)\<lparr>top_reason_codes_st := (\<lambda>cs k s. cached_list (top_reason_codes E cs k) s)\<rparr>"

section \<open>Properties\<close>

subsection \<open>Rounding\<close>

lemma py_round_lower: "\<lfloor>x\<rfloor> \<le> py_round x"
  by (simp add: py_round_def Let_def)

lemma py_round_upper: "py_round x \<le> \<lfloor>x\<rfloor> + 1"
  by (simp add: py_round_def Let_def)

lemma py_round_of_int: "py_round (of_int n) = n"
  by (simp add: py_round_def Let_def)

lemma py_round_mono:
  assumes "x \<le> y"
  shows "py_round x \<le> py_round y"
proof (cases "\<lfloor>x\<rfloor> = \<lfloor>y\<rfloor>")
  case True
  then have "x - of_int \<lfloor>x\<rfloor> \<le> y - of_int \<lfloor>y\<rfloor>"
    using assms by simp
  then show ?thesis
    using True by (auto simp: py_round_def Let_def)
next
  case False
  then have "\<lfloor>x\<rfloor> + 1 \<le> \<lfloor>y\<rfloor>"
    using floor_mono [OF assms] by linarith
  then show ?thesis
    using py_round_upper [of x] py_round_lower [of y] by linarith
qed

lemma py_round_nearest: "\<bar>of_int (py_round x) - x\<bar> \<le> 1 / 2"
proof -
  have "of_int \<lfloor>x\<rfloor> \<le> x" and "x < of_int \<lfloor>x\<rfloor> + 1"
    by linarith+
  then show ?thesis
    by (auto simp: py_round_def Let_def abs_le_iff)
qed

subsection \<open>Calibration\<close>

lemma calibrate_score_bounds:
  "0 \<le> calibrate_score r m \<and> calibrate_score r m \<le> 100"
proof -
  define n where "n = max (min (r / (if m \<le> 0 then 1 else m)) 1) (- 1)"
  have n: "- 1 \<le> n" "n \<le> 1"
    by (simp_all add: n_def)
  have "py_round (of_int 0) \<le> py_round ((n + 1) * 50)"
    using n by (intro py_round_mono) simp
  moreover have "py_round ((n + 1) * 50) \<le> py_round (of_int 100)"
    using n by (intro py_round_mono) simp
  ultimately show ?thesis
    unfolding calibrate_score_def Let_def n_def [symmetric] py_round_of_int
    by simp
qed

lemma calibrate_score_mono:
  assumes "r \<le> r'"
  shows "calibrate_score r m \<le> calibrate_score r' m"
proof -
  define d where "d = (if m \<le> 0 then 1 else m)"
  have "0 < d"
    by (simp add: d_def)
  then have "r / d \<le> r' / d"
    using assms by (simp add: divide_right_mono)
  then have "(max (min (r / d) 1) (- 1) + 1) * 50 \<le> (max (min (r' / d) 1) (- 1) + 1) * 50"
    by (simp add: max.coboundedI1 max.coboundedI2 min.coboundedI1 min.coboundedI2)
  then show ?thesis
    unfolding calibrate_score_def Let_def d_def [symmetric]
    by (rule py_round_mono)
qed

subsection \<open>The fields of the result\<close>

lemma score_calculate_score:
  "score (fst (calculate_score E pl weights lg)) =
     calibrate_score (raw_of E pl weights) (dynamic_max (effective_weights E weights))"
  by (simp add: calculate_score_def raw_of_def dynamic_max_def effective_weights_def Let_def
      split: prod.splits)

lemma status_calculate_score:
  "(status (fst (calculate_score E pl weights lg)),
    recommended_action (fst (calculate_score E pl weights lg))) =
     map_to_status_action (score (fst (calculate_score E pl weights lg)))"
  by (simp add: calculate_score_def Let_def split: prod.splits)

lemma reason_codes_calculate_score:
  "reason_codes (fst (calculate_score E pl weights lg)) =
     (if fired_of E pl
      then \<lparr>code = hard_code_of E pl, contribution = - 999\<rparr> #
           top_reason_codes E (contributions_of E pl weights) 5
      else top_reason_codes E (contributions_of E pl weights) 5)"
  by (simp add: calculate_score_def contributions_of_def fired_of_def hard_code_of_def
      effective_weights_def Let_def split: prod.splits)

lemma metadata_calculate_score:
  "metadata (fst (calculate_score E pl weights lg)) =
     \<lparr>model_version = ''v0.1.0'',
      hard_rule_fired = fired_of E pl,
      context = (case pl ''context'' of None \<Rightarrow> JObj [] | Some c \<Rightarrow> c)\<rparr>"
  by (simp add: calculate_score_def fired_of_def Let_def split: prod.splits)

subsection \<open>Boundedness\<close>

text \<open>
  C1. For every payload and every weight configuration (supplied or not), whatever the
  collaborators compute, the \<open>score\<close> field of the result of \<open>calculate_score\<close> is an
  integer between 0 and 100 inclusive.
\<close>

theorem C1_score_bounded:
  "0 \<le> score (fst (calculate_score E pl weights lg)) \<and>
   score (fst (calculate_score E pl weights lg)) \<le> 100"
  unfolding score_calculate_score by (rule calibrate_score_bounds)

subsection \<open>Classification thresholds\<close>

text \<open>
  C2. The mapping from score to status and action: 75 gives LEGITIMO/ALLOW, 74 and 50 give
  DESCONFIAVEL/STEP_UP_AUTH, 49 gives ALTO_RISCO/BLOCK; every score of at least 75 gives
  LEGITIMO/ALLOW, every score from 50 to 74 gives DESCONFIAVEL/STEP_UP_AUTH, every score
  below 50 gives ALTO_RISCO/BLOCK; status and action determine each other. (LEGITIMO,
  DESCONFIAVEL and ALTO_RISCO are the source's names for the specification's LEGITIMATE,
  SUSPICIOUS and HIGH_RISK.)
\<close>

theorem C2_thresholds:
  "map_to_status_action 75 = (LEGITIMO, ALLOW) \<and>
   map_to_status_action 74 = (DESCONFIAVEL, STEP_UP_AUTH) \<and>
   map_to_status_action 50 = (DESCONFIAVEL, STEP_UP_AUTH) \<and>
   map_to_status_action 49 = (ALTO_RISCO, BLOCK) \<and>
   (75 \<le> s \<longrightarrow> map_to_status_action s = (LEGITIMO, ALLOW)) \<and>
   (50 \<le> s \<and> s \<le> 74 \<longrightarrow> map_to_status_action s = (DESCONFIAVEL, STEP_UP_AUTH)) \<and>
   (s < 50 \<longrightarrow> map_to_status_action s = (ALTO_RISCO, BLOCK)) \<and>
   (fst (map_to_status_action s) = LEGITIMO \<longleftrightarrow> snd (map_to_status_action s) = ALLOW) \<and>
   (fst (map_to_status_action s) = DESCONFIAVEL \<longleftrightarrow>
      snd (map_to_status_action s) = STEP_UP_AUTH) \<and>
   (fst (map_to_status_action s) = ALTO_RISCO \<longleftrightarrow> snd (map_to_status_action s) = BLOCK)"
  by (simp add: map_to_status_action_def)

theorem C2_thresholds_witness:
  "(75 :: int) \<le> 100 \<and> map_to_status_action 100 = (LEGITIMO, ALLOW) \<and>
   (50 :: int) \<le> 60 \<and> (60 :: int) \<le> 74 \<and>
   map_to_status_action 60 = (DESCONFIAVEL, STEP_UP_AUTH) \<and>
   (0 :: int) < 50 \<and> map_to_status_action 0 = (ALTO_RISCO, BLOCK)"
  using C2_thresholds [of 100] C2_thresholds [of 60] C2_thresholds [of 0] by simp

subsection \<open>Rounding to binary64\<close>

lemma binade_eq:
  assumes "2 powi e \<le> \<bar>x\<bar>" and "\<bar>x\<bar> < 2 powi (e + 1)" and "- 1022 \<le> e"
  shows "binade x = e"
proof -
  have pos: "0 < \<bar>x\<bar>"
    using assms(1) zero_less_power_int [of "2 :: real" e] by linarith
  have "(2 :: real) powr (of_int e) = 2 powi e"
    and "(2 :: real) powr (of_int e + 1) = 2 powi (e + 1)"
    using powr_real_of_int' [of "2 :: real" e] powr_real_of_int' [of "2 :: real" "e + 1"]
    by simp_all
  then have "\<lfloor>log 2 \<bar>x\<bar>\<rfloor> = e"
    using assms(1,2) pos by (simp add: floor_log_eq_powr_iff)
  then show ?thesis
    using assms(3) by (simp add: binade_def)
qed

lemma binade_bounds:
  assumes "x \<noteq> 0"
  shows "2 powi (binade x) \<le> max \<bar>x\<bar> (2 powi (- 1022))"
proof -
  have pos: "0 < \<bar>x\<bar>" using assms by simp
  have "2 powr (of_int \<lfloor>log 2 \<bar>x\<bar>\<rfloor>) \<le> 2 powr (log 2 \<bar>x\<bar>)"
    by (intro powr_mono) auto
  then have "2 powi \<lfloor>log 2 \<bar>x\<bar>\<rfloor> \<le> \<bar>x\<bar>"
    using pos by (simp add: powr_real_of_int')
  then show ?thesis
    by (auto simp: binade_def max_def)
qed

lemma round_error:
  fixes x :: real
  shows "\<bar>of_int (py_round (x / 2 powi q)) * 2 powi q - x\<bar> \<le> 2 powi q / 2"
proof -
  have pos: "(0 :: real) < 2 powi q"
    by simp
  have "\<bar>of_int (py_round (x / 2 powi q)) - x / 2 powi q\<bar> * 2 powi q \<le> 1 / 2 * 2 powi q"
    using py_round_nearest [of "x / 2 powi q"] pos by (intro mult_right_mono) simp_all
  moreover have "\<bar>of_int (py_round (x / 2 powi q)) - x / 2 powi q\<bar> * 2 powi q =
      \<bar>(of_int (py_round (x / 2 powi q)) - x / 2 powi q) * 2 powi q\<bar>"
    using pos by (simp add: abs_mult)
  moreover have "(of_int (py_round (x / 2 powi q)) - x / 2 powi q) * 2 powi q =
      of_int (py_round (x / 2 powi q)) * 2 powi q - x"
    using pos by (simp add: left_diff_distrib)
  ultimately show ?thesis by simp
qed

lemma to_double_value:
  assumes "x \<noteq> 0" and "\<bar>x\<bar> \<le> 2 ^ 1000"
  shows "to_double x =
      Fin (of_int (py_round (x / 2 powi (binade x - 52))) * 2 powi (binade x - 52))"
    and "\<bar>of_int (py_round (x / 2 powi (binade x - 52))) * 2 powi (binade x - 52)\<bar> \<le>
      2 * \<bar>x\<bar> + 1"
proof -
  define q where "q = binade x - 52"
  define y :: real where "y = of_int (py_round (x / 2 powi q)) * 2 powi q"
  have "(2 :: real) powi q = 2 powi (binade x + (- 52))"
    by (simp add: q_def)
  also have "\<dots> = 2 powi (binade x) * 2 powi (- 52)"
    by (rule power_int_add) simp
  also have "\<dots> \<le> 2 powi (binade x)"
    by (simp add: power_int_minus)
  also have "\<dots> \<le> max \<bar>x\<bar> (2 powi (- 1022))"
    using assms(1) by (rule binade_bounds)
  also have "\<dots> \<le> \<bar>x\<bar> + 1"
    by (simp add: power_int_minus max_def inverse_eq_divide)
  finally have q: "(2 :: real) powi q \<le> \<bar>x\<bar> + 1" .
  have "\<bar>y - x\<bar> \<le> 2 powi q / 2"
    unfolding y_def by (rule round_error)
  with q have y: "\<bar>y\<bar> \<le> 2 * \<bar>x\<bar> + 1"
    by linarith
  have "(2 :: real) * 2 ^ 1000 + 1 < 2 ^ 1024"
    by simp
  with y assms(2) have "\<not> 2 powi 1024 \<le> \<bar>y\<bar>"
    by simp
  then have "to_double x = Fin y"
    using assms(1) by (simp add: to_double_def Let_def q_def [symmetric] y_def [symmetric])
  then show "to_double x =
      Fin (of_int (py_round (x / 2 powi (binade x - 52))) * 2 powi (binade x - 52))"
    by (simp add: y_def q_def)
  show "\<bar>of_int (py_round (x / 2 powi (binade x - 52))) * 2 powi (binade x - 52)\<bar> \<le>
      2 * \<bar>x\<bar> + 1"
    using y by (simp add: y_def q_def)
qed

lemma to_double_finite:
  assumes "\<bar>x\<bar> \<le> 2 ^ 1000"
  shows "\<exists>y. to_double x = Fin y \<and> \<bar>y\<bar> \<le> 2 * \<bar>x\<bar> + 1"
proof (cases "x = 0")
  case True
  then show ?thesis by (simp add: to_double_def)
next
  case False
  then show ?thesis
    using to_double_value [OF False assms] by blast
qed

lemma to_double_binade:
  assumes "2 powi e \<le> \<bar>x\<bar>" and "\<bar>x\<bar> < 2 powi (e + 1)" and "- 1022 \<le> e" and "e < 1000"
  shows "to_double x = Fin (of_int (py_round (x / 2 powi (e - 52))) * 2 powi (e - 52))"
proof -
  have p: "(0 :: real) < 2 powi e"
    by simp
  have "0 < \<bar>x\<bar>"
    using assms(1) p by linarith
  then have nz: "x \<noteq> 0"
    by simp
  have b: "binade x = e"
    using assms(1-3) by (rule binade_eq)
  have "(2 :: real) powi (e + 1) \<le> 2 powi 1000"
    using assms(4) by (intro power_int_increasing) simp_all
  then have "\<bar>x\<bar> \<le> 2 ^ 1000"
    using assms(2) by simp
  then show ?thesis
    using to_double_value(1) [OF nz] by (simp add: b)
qed

lemma to_double_exact:
  "to_double 1 = Fin 1" "to_double 50 = Fin 50" "to_double 100 = Fin 100"
  "to_double (- 1) = Fin (- 1)"
proof -
  show "to_double 1 = Fin 1"
    using to_double_binade [of 0 1] py_round_of_int [of "2 ^ 52"]
    by (simp add: power_int_minus)
  show "to_double 50 = Fin 50"
    using to_double_binade [of 5 50] py_round_of_int [of "50 * 2 ^ 47"]
    by (simp add: power_int_minus)
  show "to_double 100 = Fin 100"
    using to_double_binade [of 6 100] py_round_of_int [of "100 * 2 ^ 46"]
    by (simp add: power_int_minus)
  show "to_double (- 1) = Fin (- 1)"
    using to_double_binade [of 0 "- 1"] py_round_of_int [of "- (2 ^ 52)"]
    by (simp add: power_int_minus)
qed

lemma to_double_not_NaN: "to_double x \<noteq> NaN"
  by (simp add: to_double_def Let_def)

lemma to_double_binade_overflow:
  assumes "2 powi e \<le> \<bar>x\<bar>" and "\<bar>x\<bar> < 2 powi (e + 1)" and "- 1022 \<le> e"
  shows "to_double x =
     (if (2 :: real) powi 1024 \<le>
           \<bar>of_int (py_round (x / 2 powi (e - 52))) * (2 :: real) powi (e - 52)\<bar>
      then (if 0 < x then PInf else NInf)
      else Fin (of_int (py_round (x / 2 powi (e - 52))) * 2 powi (e - 52)))"
proof -
  have p: "(0 :: real) < 2 powi e"
    by simp
  have "0 < \<bar>x\<bar>"
    using assms(1) p by linarith
  then have "x \<noteq> 0"
    by simp
  then show ?thesis
    using binade_eq [OF assms] by (simp add: to_double_def Let_def)
qed

subsection \<open>Calibration formula\<close>

lemma half_never_fails: "\<exists>h. fdiv x (Fin 2) = Inr h"
  by (cases x) simp_all

lemma bound_cases:
  "py_max (Fin 1) h = PInf \<or> (\<exists>b. py_max (Fin 1) h = Fin b \<and> 1 \<le> b)"
  by (cases h) (auto simp: py_max_def)

lemma bound_guard: "\<not> fle (py_max (Fin 1) h) (Fin 0)"
  using bound_cases [of h] by (auto simp: fle_def)

lemma clamp_max_min_f: "py_max (py_min q (Fin 1)) (Fin (- 1)) = clamp_f q (Fin (- 1)) (Fin 1)"
  by (cases q) (auto simp: py_max_def py_min_def clamp_f_def)

lemma clamp_finite:
  assumes "q \<noteq> NaN"
  shows "\<exists>n. clamp_f q (Fin (- 1)) (Fin 1) = Fin n \<and> - 1 \<le> n \<and> n \<le> 1"
  using assms by (cases q) (auto simp: clamp_f_def)

lemma quotient_finite_raw:
  "\<exists>q. fdiv (Fin r) (py_max (Fin 1) h) = Inr q \<and> q \<noteq> NaN"
  using bound_cases [of h] by (auto simp: to_double_not_NaN)

lemma rescale_finite:
  assumes "- 1 \<le> n" and "n \<le> 1"
  shows "\<exists>y. fmul (fadd (Fin n) (Fin 1)) (Fin 50) = Fin y"
proof -
  have "\<bar>n + 1\<bar> \<le> 2 ^ 1000"
    using assms by (simp add: abs_le_iff)
  then obtain t where t: "to_double (n + 1) = Fin t" "\<bar>t\<bar> \<le> 2 * \<bar>n + 1\<bar> + 1"
    using to_double_finite by blast
  then have "\<bar>t * 50\<bar> \<le> 250"
    using assms by (simp add: abs_mult)
  moreover have "(250 :: real) \<le> 2 ^ 1000"
    by simp
  ultimately have "\<bar>t * 50\<bar> \<le> 2 ^ 1000"
    by linarith
  then obtain y where "to_double (t * 50) = Fin y"
    using to_double_finite by blast
  with t show ?thesis by simp
qed

lemma score_f_unfold:
  assumes "fdiv (py_sum (map (\<lambda>kv. py_abs (snd kv)) w)) (Fin 2) = Inr h"
  shows "score_f py_sum raw w = calibrate_score_f raw (py_max (Fin 1) h)"
    and "rescaled_spec py_sum raw w =
      (case fdiv raw (py_max (Fin 1) h) of
         Inl e \<Rightarrow> Inl e
       | Inr q \<Rightarrow> Inr (fmul (fadd (clamp_f q (Fin (- 1)) (Fin 1)) (Fin 1)) (Fin 50)))"
  using assms
  by (simp_all add: score_f_def dynamic_max_f_def rescaled_spec_def case_prod_unfold)

lemma calibrate_on_bound:
  "calibrate_score_f raw (py_max (Fin 1) h) =
     (case fdiv raw (py_max (Fin 1) h) of
        Inl e \<Rightarrow> Inl e
      | Inr q \<Rightarrow> int_round (fmul (fadd (clamp_f q (Fin (- 1)) (Fin 1)) (Fin 1)) (Fin 50)))"
  by (simp add: calibrate_score_f_def bound_guard clamp_max_min_f Let_def split: sum.split)

lemma score_f_spec: "score_f py_sum raw w = calibrate_spec_f py_sum raw w"
proof -
  obtain h where h: "fdiv (py_sum (map (\<lambda>kv. py_abs (snd kv)) w)) (Fin 2) = Inr h"
    using half_never_fails by blast
  show ?thesis
    unfolding score_f_unfold(1) [where py_sum = py_sum and w = w, OF h] calibrate_spec_f_def
      score_f_unfold(2) [where py_sum = py_sum and w = w, OF h] calibrate_on_bound
    by (simp split: sum.splits)
qed

lemma score_f_finite:
  "\<exists>y. rescaled_spec py_sum (Fin r) w = Inr (Fin y) \<and>
       score_f py_sum (Fin r) w = Inr (py_round y)"
proof -
  obtain h where h: "fdiv (py_sum (map (\<lambda>kv. py_abs (snd kv)) w)) (Fin 2) = Inr h"
    using half_never_fails by blast
  obtain q where q: "fdiv (Fin r) (py_max (Fin 1) h) = Inr q" "q \<noteq> NaN"
    using quotient_finite_raw by blast
  obtain n where n: "clamp_f q (Fin (- 1)) (Fin 1) = Fin n" "- 1 \<le> n" "n \<le> 1"
    using clamp_finite [OF q(2)] by blast
  obtain y where y: "fmul (fadd (Fin n) (Fin 1)) (Fin 50) = Fin y"
    using rescale_finite [OF n(2,3)] by blast
  show ?thesis
    unfolding score_f_unfold [where py_sum = py_sum and w = w, OF h] calibrate_on_bound
    using y by (simp add: q n)
qed

lemma score_f_zero: "score_f py_sum (Fin 0) w = Inr 50"
proof -
  obtain h where h: "fdiv (py_sum (map (\<lambda>kv. py_abs (snd kv)) w)) (Fin 2) = Inr h"
    using half_never_fails by blast
  have "fdiv (Fin 0) (py_max (Fin 1) h) = Inr (Fin 0)"
    using bound_cases [of h] by (auto simp: to_double_def)
  then show ?thesis
    unfolding score_f_unfold(1) [where py_sum = py_sum and w = w, OF h] calibrate_on_bound
    using py_round_of_int [of 50]
    by (simp add: clamp_f_def to_double_exact)
qed

text \<open>
  C3. For every raw score and every weight configuration, the calibrated score is
  \<open>round((clamp(raw / max(1.0, sum(|w|)/2), -1, 1) + 1) * 50)\<close>, computed as the code computes
  it, in binary64 arithmetic: what lines 97 and 98 return is what the formula returns, for
  every float, the guard for a non-positive bound never being taken (first conjunct); for a
  finite raw score the rescaled value is a finite float and the score is the integer
  nearest to it, no exception being raised (second conjunct); a raw score of exactly 0
  gives 50 (third conjunct).
\<close>

theorem C3_calibration:
  "score_f py_sum raw w = calibrate_spec_f py_sum raw w \<and>
   (\<exists>y. rescaled_spec py_sum (Fin r) w = Inr (Fin y) \<and>
        score_f py_sum (Fin r) w = Inr (py_round y) \<and>
        \<bar>of_int (py_round y) - y\<bar> \<le> 1 / 2) \<and>
   score_f py_sum (Fin 0) w = Inr 50"
  using score_f_spec [of py_sum raw w] score_f_finite [of py_sum r w]
    score_f_zero [of py_sum w] py_round_nearest
  by auto

text \<open>
  The calibration at some floats. \<open>0.09\<close>, \<open>-0.01\<close> and \<open>4.9 / 10.0\<close> are cases in which a
  rounding of the machine decides the result: 55, 50 and 74, where exact arithmetic gives
  54, 49 and 75.
\<close>

lemma calibrate_in_range:
  assumes "0 < b"
    and "to_double (r / b) = Fin q" and "- 1 \<le> q" and "q \<le> 1"
    and "to_double (q + 1) = Fin t"
    and "to_double (t * 50) = Fin y"
  shows "calibrate_score_f (Fin r) (Fin b) = Inr (py_round y)"
  using assms by (simp add: calibrate_score_f_def fle_def py_min_def py_max_def Let_def)

lemma calibrate_009: "calibrate_score_f (to_double (9 / 100)) (Fin 1) = Inr 55"
proof -
  define a :: real where "a = 6485183463413514 / 2 ^ 56"
  define t :: real where "t = 4908923593833841 / 2 ^ 52"
  define y :: real where "y = 7670193115365377 / 2 ^ 47"
  have raw: "to_double (9 / 100) = Fin a"
    unfolding a_def using to_double_binade [of "- 4" "9 / 100"]
    by (simp add: power_int_minus py_round_def Let_def)
  have q: "to_double (a / 1) = Fin a"
    unfolding a_def using to_double_binade [of "- 4" "6485183463413514 / 2 ^ 56"]
    by (simp add: power_int_minus py_round_def Let_def)
  have t: "to_double (a + 1) = Fin t"
    unfolding a_def t_def using to_double_binade [of 0 "6485183463413514 / 2 ^ 56 + 1"]
    by (simp add: power_int_minus py_round_def Let_def)
  have y: "to_double (t * 50) = Fin y"
    unfolding t_def y_def using to_double_binade [of 5 "4908923593833841 / 2 ^ 52 * 50"]
    by (simp add: power_int_minus py_round_def Let_def)
  have "- 1 \<le> a" and "a \<le> 1"
    by (simp_all add: a_def)
  then have "calibrate_score_f (Fin a) (Fin 1) = Inr (py_round y)"
    using q t y by (intro calibrate_in_range) simp_all
  moreover have "py_round y = 55"
    by (simp add: y_def py_round_def Let_def)
  ultimately show ?thesis
    by (simp add: raw)
qed

lemma calibrate_minus_001: "calibrate_score_f (to_double (- (1 / 100))) (Fin 1) = Inr 50"
proof -
  define a :: real where "a = - (5764607523034235 / 2 ^ 59)"
  define t :: real where "t = 8917127262193582 / 2 ^ 53"
  define y :: real where "y = 6966505673588736 / 2 ^ 47"
  have raw: "to_double (- (1 / 100)) = Fin a"
    unfolding a_def using to_double_binade [of "- 7" "- (1 / 100)"]
    by (simp add: power_int_minus py_round_def Let_def)
  have q: "to_double (a / 1) = Fin a"
    unfolding a_def using to_double_binade [of "- 7" "- (5764607523034235 / 2 ^ 59)"]
    by (simp add: power_int_minus py_round_def Let_def)
  have t: "to_double (a + 1) = Fin t"
    unfolding a_def t_def
    using to_double_binade [of "- 1" "- (5764607523034235 / 2 ^ 59) + 1"]
    by (simp add: power_int_minus py_round_def Let_def)
  have y: "to_double (t * 50) = Fin y"
    unfolding t_def y_def using to_double_binade [of 5 "8917127262193582 / 2 ^ 53 * 50"]
    by (simp add: power_int_minus py_round_def Let_def)
  have "- 1 \<le> a" and "a \<le> 1"
    by (simp_all add: a_def)
  then have "calibrate_score_f (Fin a) (Fin 1) = Inr (py_round y)"
    using q t y by (intro calibrate_in_range) simp_all
  moreover have "py_round y = 50"
    by (simp add: y_def py_round_def Let_def)
  ultimately show ?thesis
    by (simp add: raw)
qed

lemma calibrate_49_10:
  "to_double 10 = Fin 10 \<and>
   calibrate_score_f (to_double (49 / 10)) (Fin 10) = Inr 74"
proof -
  define a :: real where "a = 5516909543528858 / 2 ^ 50"
  define q :: real where "q = 8827055269646173 / 2 ^ 54"
  define t :: real where "t = 6710363444782039 / 2 ^ 52"
  define y :: real where "y = 5242471441235968 / 2 ^ 46"
  have ten: "to_double 10 = Fin 10"
    using to_double_binade [of 3 10] py_round_of_int [of "10 * 2 ^ 49"]
    by (simp add: power_int_minus)
  have raw: "to_double (49 / 10) = Fin a"
    unfolding a_def using to_double_binade [of 2 "49 / 10"]
    by (simp add: power_int_minus py_round_def Let_def)
  have q: "to_double (a / 10) = Fin q"
    unfolding a_def q_def using to_double_binade [of "- 2" "5516909543528858 / 2 ^ 50 / 10"]
    by (simp add: power_int_minus py_round_def Let_def)
  have t: "to_double (q + 1) = Fin t"
    unfolding q_def t_def using to_double_binade [of 0 "8827055269646173 / 2 ^ 54 + 1"]
    by (simp add: power_int_minus py_round_def Let_def)
  have y: "to_double (t * 50) = Fin y"
    unfolding t_def y_def using to_double_binade [of 6 "6710363444782039 / 2 ^ 52 * 50"]
    by (simp add: power_int_minus py_round_def Let_def)
  have "- 1 \<le> q" and "q \<le> 1"
    by (simp_all add: q_def)
  then have "calibrate_score_f (Fin a) (Fin 10) = Inr (py_round y)"
    using q t y by (intro calibrate_in_range) simp_all
  moreover have "py_round y = 74"
    by (simp add: y_def py_round_def Let_def)
  ultimately show ?thesis
    by (simp add: raw ten)
qed

lemma calibrate_NaN: "calibrate_score_f NaN (Fin 1) = Inl ValueError"
  by (simp add: calibrate_score_f_def fle_def py_min_def py_max_def Let_def)

text \<open>
  Two weights of \<open>2^1023\<close>: the sum overflows, the bound is infinite, a finite raw score
  gives 50 and an infinite one makes \<^verbatim>\<open>round\<close> raise.
\<close>

lemma overflowing_weights:
  "dynamic_max_f plain_sum [(''a'', Fin (2 ^ 1023)), (''b'', Fin (2 ^ 1023))] = Inr PInf"
  "score_f plain_sum (Fin r) [(''a'', Fin (2 ^ 1023)), (''b'', Fin (2 ^ 1023))] = Inr 50"
  "score_f plain_sum PInf [(''a'', Fin (2 ^ 1023)), (''b'', Fin (2 ^ 1023))] = Inl ValueError"
proof -
  have one: "to_double (2 ^ 1023) = Fin (2 ^ 1023)"
    using to_double_binade_overflow [of 1023 "2 ^ 1023"] py_round_of_int [of "2 ^ 52"]
    by (simp add: power_int_minus)
  have two: "to_double (2 ^ 1023 + 2 ^ 1023) = PInf"
    using to_double_binade_overflow [of 1024 "2 ^ 1023 + 2 ^ 1023"] py_round_of_int [of "2 ^ 52"]
    by (simp add: power_int_minus)
  have dm: "dynamic_max_f plain_sum [(''a'', Fin (2 ^ 1023)), (''b'', Fin (2 ^ 1023))] = Inr PInf"
    using one two by (simp add: dynamic_max_f_def plain_sum_def signed_inf_def py_max_def)
  show "dynamic_max_f plain_sum [(''a'', Fin (2 ^ 1023)), (''b'', Fin (2 ^ 1023))] = Inr PInf"
    by (rule dm)
  show "score_f plain_sum (Fin r) [(''a'', Fin (2 ^ 1023)), (''b'', Fin (2 ^ 1023))] = Inr 50"
    using dm py_round_of_int [of 50]
    by (simp add: score_f_def calibrate_score_f_def fle_def py_min_def py_max_def Let_def
        to_double_exact)
  show "score_f plain_sum PInf [(''a'', Fin (2 ^ 1023)), (''b'', Fin (2 ^ 1023))] =
      Inl ValueError"
    using dm
    by (simp add: score_f_def calibrate_score_f_def fle_def py_min_def py_max_def Let_def)
qed

text \<open>
  The two readings of \<^verbatim>\<open>_calibrate_score\<close> agree whenever none of its three arithmetic
  operations rounds.
\<close>

lemma calibrate_score_f_exact:
  assumes "0 < b"
    and "to_double (r / b) = Fin (r / b)"
    and "to_double (max (min (r / b) 1) (- 1) + 1) = Fin (max (min (r / b) 1) (- 1) + 1)"
    and "to_double ((max (min (r / b) 1) (- 1) + 1) * 50) =
      Fin ((max (min (r / b) 1) (- 1) + 1) * 50)"
  shows "calibrate_score_f (Fin r) (Fin b) = Inr (calibrate_score r b)"
proof -
  have "py_max (py_min (Fin (r / b)) (Fin 1)) (Fin (- 1)) = Fin (max (min (r / b) 1) (- 1))"
    by (simp add: py_max_def py_min_def max_def min_def)
  then show ?thesis
    using assms by (simp add: calibrate_score_f_def calibrate_score_def fle_def Let_def)
qed

text \<open>A tie goes to the even neighbour, as Python's \<^verbatim>\<open>round\<close> does: 62.5 gives 62.\<close>

lemma calibrate_tie_to_even: "calibrate_score (1 / 4) 1 = 62"
  by (simp add: calibrate_score_def py_round_def Let_def)

subsection \<open>Evaluating the sample collaborators\<close>

lemma sample_env_fields:
  "extract_all_features (sample_env dw) = sample_extract"
  "hard_rules (sample_env dw) = sample_rules"
  "weighted_sum (sample_env dw) = weighted_sum_spec"
  "top_reason_codes (sample_env dw) = top_reason_codes_spec"
  "DEFAULT_WEIGHTS (sample_env dw) = dw"
  by (simp_all add: sample_env_def)

lemma sample_extract_behavior:
  "sample_extract (behavior_payload kvs) = concat (map feature_of kvs)"
  by (simp add: sample_extract_def behavior_payload_def)

lemma ex1_fired:
  "fired_of (sample_env dw) (behavior_payload [(''revoked_credential'', JBool True)])"
  "hard_code_of (sample_env dw) (behavior_payload [(''revoked_credential'', JBool True)]) =
     ''REVOKED_CREDENTIAL''"
  by (simp_all add: fired_of_def hard_code_of_def sample_env_fields sample_extract_behavior
      sample_rules_def)

lemma ex1_raw:
  "raw_of (sample_env dw) (behavior_payload [(''revoked_credential'', JBool True)])
     (Some [(''revoked_credential'', x)]) = x"
  "contributions_of (sample_env dw) (behavior_payload [(''revoked_credential'', JBool True)])
     (Some [(''revoked_credential'', x)]) = [(''revoked_credential'', x)]"
  "effective_weights (sample_env dw) (Some [(''revoked_credential'', x)]) =
     [(''revoked_credential'', x)]"
  by (simp_all add: raw_of_def contributions_of_def effective_weights_def sample_env_fields
      sample_extract_behavior weighted_sum_spec_def)

lemma ex1_score:
  "score (fst (calculate_score (sample_env dw)
      (behavior_payload [(''revoked_credential'', JBool True)])
      (Some [(''revoked_credential'', 1)]) lg)) = 100"
  by (simp add: score_calculate_score ex1_raw dynamic_max_def calibrate_score_def
      py_round_def Let_def)

subsection \<open>Metadata\<close>

text \<open>
  C10. The metadata of the result is exactly the three entries \<open>model_version = "v0.1.0"\<close>,
  \<open>hard_rule_fired\<close> (the flag the rule engine returned) and \<open>context\<close>; the context entry
  is the value stored under the payload's \<open>context\<close> key, unmodified, when the payload has
  that key, and the empty map when it has not.
\<close>

theorem C10_metadata:
  "metadata (fst (calculate_score E pl weights lg)) =
     \<lparr>model_version = ''v0.1.0'',
      hard_rule_fired = fst (hard_rules E (extract_all_features E pl)),
      context = (case pl ''context'' of None \<Rightarrow> JObj [] | Some c \<Rightarrow> c)\<rparr> \<and>
   (pl ''context'' = Some c \<longrightarrow>
      context (metadata (fst (calculate_score E pl weights lg))) = c) \<and>
   (pl ''context'' = None \<longrightarrow>
      context (metadata (fst (calculate_score E pl weights lg))) = JObj [])"
  by (simp add: metadata_calculate_score fired_of_def)

theorem C10_metadata_witness:
  "[''context'' \<mapsto> JObj [(''ip'', JStr ''10.0.0.1'')]] ''context'' =
     Some (JObj [(''ip'', JStr ''10.0.0.1'')]) \<and>
   context (metadata (fst (calculate_score (sample_env [])
      [''context'' \<mapsto> JObj [(''ip'', JStr ''10.0.0.1'')]] None []))) =
     JObj [(''ip'', JStr ''10.0.0.1'')] \<and>
   (Map.empty :: payload) ''context'' = None \<and>
   context (metadata (fst (calculate_score (sample_env []) Map.empty None []))) = JObj []"
  using C10_metadata [where pl = "[''context'' \<mapsto> JObj [(''ip'', JStr ''10.0.0.1'')]]"
      and c = "JObj [(''ip'', JStr ''10.0.0.1'')]" and E = "sample_env []"
      and weights = None and lg = "[]"]
    C10_metadata [where pl = Map.empty and E = "sample_env []" and weights = None
      and lg = "[]"]
  by simp

subsection \<open>The logger\<close>

text \<open>The result does not depend on the logger's sink, to which the function only appends.\<close>

lemma result_ignores_logger:
  "fst (calculate_score E pl weights lg1) = fst (calculate_score E pl weights lg2) \<and>
   snd (calculate_score E pl weights lg1) = lg1 @ snd (calculate_score E pl weights [])"
  by (simp add: calculate_score_def Let_def split: prod.splits)

subsection \<open>A fired hard rule only annotates\<close>

lemma without_hard_rules_simps:
  "effective_weights (without_hard_rules E) weights = effective_weights E weights"
  "raw_of (without_hard_rules E) pl weights = raw_of E pl weights"
  "contributions_of (without_hard_rules E) pl weights = contributions_of E pl weights"
  "top_reason_codes (without_hard_rules E) = top_reason_codes E"
  "fired_of (without_hard_rules E) pl = False"
  by (simp_all add: without_hard_rules_def effective_weights_def raw_of_def
      contributions_of_def fired_of_def split: option.split)

lemma status_of_score:
  "status (fst (calculate_score E pl weights lg)) =
     fst (map_to_status_action (score (fst (calculate_score E pl weights lg))))"
  "recommended_action (fst (calculate_score E pl weights lg)) =
     snd (map_to_status_action (score (fst (calculate_score E pl weights lg))))"
  using status_calculate_score [of E pl weights lg, symmetric] by simp_all

text \<open>
  C5. A fired hard rule never alters the classification: score, status and recommended action
  are those of the same call with a rule engine in which nothing fires, and they are the
  threshold mapping of the calibrated weighted score; a fired rule changes only the reason
  codes, where the synthetic code is put in front, and the \<open>hard_rule_fired\<close> flag of the
  metadata. The instance after the theorem is a call in which a rule fired and the result is
  LEGITIMO/ALLOW.
\<close>

theorem C5_hard_rule_annotates:
  "score (fst (calculate_score E pl weights lg)) =
     score (fst (calculate_score (without_hard_rules E) pl weights lg)) \<and>
   status (fst (calculate_score E pl weights lg)) =
     status (fst (calculate_score (without_hard_rules E) pl weights lg)) \<and>
   recommended_action (fst (calculate_score E pl weights lg)) =
     recommended_action (fst (calculate_score (without_hard_rules E) pl weights lg)) \<and>
   (status (fst (calculate_score E pl weights lg)),
    recommended_action (fst (calculate_score E pl weights lg))) =
     map_to_status_action
       (calibrate_score (raw_of E pl weights) (dynamic_max (effective_weights E weights))) \<and>
   reason_codes (fst (calculate_score E pl weights lg)) =
     (if fired_of E pl
      then \<lparr>code = hard_code_of E pl, contribution = - 999\<rparr> #
           reason_codes (fst (calculate_score (without_hard_rules E) pl weights lg))
      else reason_codes (fst (calculate_score (without_hard_rules E) pl weights lg))) \<and>
   metadata (fst (calculate_score E pl weights lg)) =
     (metadata (fst (calculate_score (without_hard_rules E) pl weights lg)))
       \<lparr>hard_rule_fired := fired_of E pl\<rparr>"
  by (simp add: status_of_score score_calculate_score reason_codes_calculate_score
      metadata_calculate_score without_hard_rules_simps)

theorem C5_hard_rule_annotates_witness:
  "fired_of (sample_env []) (behavior_payload [(''revoked_credential'', JBool True)]) \<and>
   status (fst (calculate_score (sample_env [])
      (behavior_payload [(''revoked_credential'', JBool True)])
      (Some [(''revoked_credential'', 1)]) [])) = LEGITIMO \<and>
   recommended_action (fst (calculate_score (sample_env [])
      (behavior_payload [(''revoked_credential'', JBool True)])
      (Some [(''revoked_credential'', 1)]) [])) = ALLOW \<and>
   reason_codes (fst (calculate_score (sample_env [])
      (behavior_payload [(''revoked_credential'', JBool True)])
      (Some [(''revoked_credential'', 1)]) [])) =
     \<lparr>code = ''REVOKED_CREDENTIAL'', contribution = - 999\<rparr> #
     reason_codes (fst (calculate_score (without_hard_rules (sample_env []))
      (behavior_payload [(''revoked_credential'', JBool True)])
      (Some [(''revoked_credential'', 1)]) []))"
  using C5_hard_rule_annotates [of "sample_env []"
      "behavior_payload [(''revoked_credential'', JBool True)]"
      "Some [(''revoked_credential'', 1)]" "[]"]
  by (simp add: ex1_fired status_of_score ex1_score map_to_status_action_def)

subsection \<open>The synthetic reason code of a fired hard rule\<close>

text \<open>
  C6 (as amended). Whenever a hard rule fires, the metadata flag \<open>hard_rule_fired\<close> is true
  and the first reason code is the fired rule's code with the fixed sentinel contribution
  \<open>-999.0\<close>; the sentinel's magnitude exceeds that of a weighted contribution of the
  evaluation exactly when that contribution's magnitude is below 999. Nothing in the module
  bounds the contributions, so the sentinel is not more extreme than every one of them.
\<close>

theorem C6_sentinel_first:
  assumes "fired_of E pl"
  shows "hard_rule_fired (metadata (fst (calculate_score E pl weights lg))) \<and>
    reason_codes (fst (calculate_score E pl weights lg)) \<noteq> [] \<and>
    hd (reason_codes (fst (calculate_score E pl weights lg))) =
      \<lparr>code = hard_code_of E pl, contribution = - 999\<rparr> \<and>
    (\<forall>c \<in> set (contributions_of E pl weights).
       \<bar>snd c\<bar> < \<bar>contribution (hd (reason_codes (fst (calculate_score E pl weights lg))))\<bar>
         \<longleftrightarrow> \<bar>snd c\<bar> < 999)"
  using assms by (simp add: metadata_calculate_score reason_codes_calculate_score)

theorem C6_sentinel_first_witness:
  "fired_of (sample_env []) (behavior_payload [(''revoked_credential'', JBool True)]) \<and>
   hard_rule_fired (metadata (fst (calculate_score (sample_env [])
      (behavior_payload [(''revoked_credential'', JBool True)])
      (Some [(''revoked_credential'', 2)]) []))) \<and>
   hd (reason_codes (fst (calculate_score (sample_env [])
      (behavior_payload [(''revoked_credential'', JBool True)])
      (Some [(''revoked_credential'', 2)]) []))) =
     \<lparr>code = ''REVOKED_CREDENTIAL'', contribution = - 999\<rparr> \<and>
   contributions_of (sample_env []) (behavior_payload [(''revoked_credential'', JBool True)])
      (Some [(''revoked_credential'', 2)]) = [(''revoked_credential'', 2)] \<and>
   \<bar>2 :: real\<bar> < \<bar>contribution (hd (reason_codes (fst (calculate_score (sample_env [])
      (behavior_payload [(''revoked_credential'', JBool True)])
      (Some [(''revoked_credential'', 2)]) []))))\<bar>"
  using C6_sentinel_first [where E = "sample_env []"
      and pl = "behavior_payload [(''revoked_credential'', JBool True)]"
      and weights = "Some [(''revoked_credential'', 2)]" and lg = "[]"]
  by (simp add: ex1_fired ex1_raw)

text \<open>
  With a weight of 1000 on a flag that is set, the rule fires and the weighted contribution
  1000 is larger in magnitude than the sentinel.
\<close>

theorem C6_sentinel_counterexample:
  "fired_of (sample_env []) (behavior_payload [(''revoked_credential'', JBool True)]) \<and>
   contributions_of (sample_env []) (behavior_payload [(''revoked_credential'', JBool True)])
      (Some [(''revoked_credential'', 1000)]) = [(''revoked_credential'', 1000)] \<and>
   hd (reason_codes (fst (calculate_score (sample_env [])
      (behavior_payload [(''revoked_credential'', JBool True)])
      (Some [(''revoked_credential'', 1000)]) []))) =
     \<lparr>code = ''REVOKED_CREDENTIAL'', contribution = - 999\<rparr> \<and>
   \<not> \<bar>snd (''revoked_credential'', 1000 :: real)\<bar> <
      \<bar>contribution (hd (reason_codes (fst (calculate_score (sample_env [])
        (behavior_payload [(''revoked_credential'', JBool True)])
        (Some [(''revoked_credential'', 1000)]) []))))\<bar>"
  by (simp add: ex1_fired ex1_raw reason_codes_calculate_score)

subsection \<open>The weighted sum of the specification\<close>

lemma contributions_spec_append:
  "contributions_spec (xs @ ys) w = contributions_spec xs w @ contributions_spec ys w"
  by (induction xs) (auto split: option.splits)

lemma contributions_spec_zero:
  assumes "\<forall>kv \<in> set w. snd kv = 0"
  shows "sum_list (map snd (contributions_spec fs w)) = 0"
proof (induction fs)
  case Nil
  show ?case by simp
next
  case (Cons f fs)
  obtain name v where f: "f = (name, v)"
    by (cases f)
  show ?case
  proof (cases "map_of w name")
    case None
    with Cons f show ?thesis by simp
  next
    case (Some wt)
    then have "(name, wt) \<in> set w"
      by (rule map_of_SomeD)
    with assms have "wt = 0"
      by fastforce
    with Cons f Some show ?thesis by simp
  qed
qed

lemma dynamic_max_zero:
  assumes "\<forall>kv \<in> set w. snd kv = 0"
  shows "dynamic_max w = 1"
proof -
  have "sum_list (map (\<lambda>(k, v). \<bar>v\<bar>) w) = 0"
    using assms by (induction w) auto
  then show ?thesis
    by (simp add: dynamic_max_def)
qed

lemma calibrate_score_zero: "calibrate_score 0 1 = 50"
  using py_round_of_int [of 50] by (simp add: calibrate_score_def)

lemma ex2_raw:
  "raw_of (sample_env dw) (behavior_payload [(''failed_logins'', JNum x)])
     (Some ((''failed_logins'', y) # ws)) = x * y"
  "effective_weights (sample_env dw) (Some ((''failed_logins'', y) # ws)) =
     (''failed_logins'', y) # ws"
  "raw_of (sample_env [(''failed_logins'', y)]) (behavior_payload [(''failed_logins'', JNum x)])
     (Some []) = x * y"
  "effective_weights (sample_env dw) (Some []) = dw"
  by (simp_all add: raw_of_def effective_weights_def sample_env_fields
      sample_extract_behavior weighted_sum_spec_def)

subsection \<open>Neutral weights\<close>

text \<open>
  C4 (as amended). With the weighted sum of the specification, a supplied weight
  configuration that is not empty and maps every feature to zero gives the neutral midpoint
  whatever the payload: score 50, status DESCONFIAVEL (the specification's SUSPICIOUS),
  action STEP_UP_AUTH. A supplied empty configuration is not covered: line 82 replaces it by
  the module's default weights.
\<close>

theorem C4_all_zero_weights:
  assumes "weighted_sum E = weighted_sum_spec"
    and "ws \<noteq> []"
    and "\<forall>kv \<in> set ws. snd kv = 0"
  shows "score (fst (calculate_score E pl (Some ws) lg)) = 50 \<and>
    status (fst (calculate_score E pl (Some ws) lg)) = DESCONFIAVEL \<and>
    recommended_action (fst (calculate_score E pl (Some ws) lg)) = STEP_UP_AUTH"
proof -
  have w: "effective_weights E (Some ws) = ws"
    using assms(2) by (simp add: effective_weights_def)
  have "raw_of E pl (Some ws) = 0"
    using contributions_spec_zero [OF assms(3)]
    by (simp add: raw_of_def w assms(1) weighted_sum_spec_def)
  then have "score (fst (calculate_score E pl (Some ws) lg)) = 50"
    by (simp add: score_calculate_score w dynamic_max_zero [OF assms(3)] calibrate_score_zero)
  then show ?thesis
    by (simp add: status_of_score map_to_status_action_def)
qed

theorem C4_all_zero_weights_witness:
  "weighted_sum (sample_env [(''failed_logins'', 1)]) = weighted_sum_spec \<and>
   [(''failed_logins'', 0 :: real)] \<noteq> [] \<and>
   snd (''failed_logins'', 0 :: real) = 0 \<and>
   score (fst (calculate_score (sample_env [(''failed_logins'', 1)])
     (behavior_payload [(''failed_logins'', JNum 3)])
     (Some [(''failed_logins'', 0)]) [])) = 50 \<and>
   status (fst (calculate_score (sample_env [(''failed_logins'', 1)])
     (behavior_payload [(''failed_logins'', JNum 3)])
     (Some [(''failed_logins'', 0)]) [])) = DESCONFIAVEL"
  using C4_all_zero_weights [where E = "sample_env [(''failed_logins'', 1)]"
      and ws = "[(''failed_logins'', 0)]"
      and pl = "behavior_payload [(''failed_logins'', JNum 3)]" and lg = "[]"]
  by (simp add: sample_env_fields)

text \<open>
  A supplied empty configuration with default weights that give \<open>failed_logins\<close> the weight 1:
  the payload with three failed logins scores 100, not 50.
\<close>

theorem C4_empty_weights_counterexample:
  "score (fst (calculate_score (sample_env [(''failed_logins'', 1)])
     (behavior_payload [(''failed_logins'', JNum 3)]) (Some []) [])) = 100 \<and>
   score (fst (calculate_score (sample_env [(''failed_logins'', 1)])
     (behavior_payload [(''failed_logins'', JNum 3)]) (Some []) [])) \<noteq> 50 \<and>
   status (fst (calculate_score (sample_env [(''failed_logins'', 1)])
     (behavior_payload [(''failed_logins'', JNum 3)]) (Some []) [])) = LEGITIMO"
  by (simp add: status_of_score score_calculate_score ex2_raw dynamic_max_def
      calibrate_score_def py_round_def Let_def map_to_status_action_def)

subsection \<open>Monotonicity\<close>

text \<open>
  C8 (as amended). With the weighted sum of the specification: let two payloads give feature
  sets that differ in the value of one feature only, the second value at least the first
  (booleans as 0/1), under the same weights. If the feature's weight is positive the score
  of the second payload is not below the score of the first; if the weight is negative it is
  not above. The order is that of the signed value: for a feature whose values are not
  negative a larger value is a larger magnitude, for a negative value it is a smaller one.
\<close>

theorem C8_monotone:
  assumes "weighted_sum E = weighted_sum_spec"
    and "extract_all_features E pl = xs @ (k, v) # ys"
    and "extract_all_features E pl' = xs @ (k, v') # ys"
    and "fnum v \<le> fnum v'"
    and "map_of (effective_weights E weights) k = Some wk"
  shows "(0 < wk \<longrightarrow>
      score (fst (calculate_score E pl weights lg)) \<le>
      score (fst (calculate_score E pl' weights lg))) \<and>
    (wk < 0 \<longrightarrow>
      score (fst (calculate_score E pl' weights lg)) \<le>
      score (fst (calculate_score E pl weights lg)))"
proof -
  define w where "w = effective_weights E weights"
  define rest where
    "rest = sum_list (map snd (contributions_spec xs w)) +
       sum_list (map snd (contributions_spec ys w))"
  have raw: "raw_of E pl weights = rest + fnum v * wk"
    using assms(5)
    by (simp add: raw_of_def assms(1,2) weighted_sum_spec_def contributions_spec_append
        w_def [symmetric] rest_def)
  have raw': "raw_of E pl' weights = rest + fnum v' * wk"
    using assms(5)
    by (simp add: raw_of_def assms(1,3) weighted_sum_spec_def contributions_spec_append
        w_def [symmetric] rest_def)
  have up: "raw_of E pl weights \<le> raw_of E pl' weights" if "0 < wk"
    using that assms(4) by (simp add: raw raw' mult_right_mono)
  have down: "raw_of E pl' weights \<le> raw_of E pl weights" if "wk < 0"
    using that assms(4) by (simp add: raw raw' mult_right_mono_neg)
  show ?thesis
    unfolding score_calculate_score
    using up down by (auto intro: calibrate_score_mono)
qed

theorem C8_monotone_witness:
  "weighted_sum (sample_env []) = weighted_sum_spec \<and>
   extract_all_features (sample_env []) (behavior_payload [(''failed_logins'', JNum 1)]) =
     [] @ (''failed_logins'', Num 1) # [] \<and>
   extract_all_features (sample_env []) (behavior_payload [(''failed_logins'', JNum 2)]) =
     [] @ (''failed_logins'', Num 2) # [] \<and>
   fnum (Num 1) \<le> fnum (Num 2) \<and>
   map_of (effective_weights (sample_env [])
     (Some [(''failed_logins'', 1), (''typing_speed'', 3)])) ''failed_logins'' = Some 1 \<and>
   (0 :: real) < 1 \<and>
   score (fst (calculate_score (sample_env []) (behavior_payload [(''failed_logins'', JNum 1)])
     (Some [(''failed_logins'', 1), (''typing_speed'', 3)]) [])) \<le>
   score (fst (calculate_score (sample_env []) (behavior_payload [(''failed_logins'', JNum 2)])
     (Some [(''failed_logins'', 1), (''typing_speed'', 3)]) [])) \<and>
   map_of (effective_weights (sample_env [])
     (Some [(''failed_logins'', - 1), (''typing_speed'', 3)])) ''failed_logins'' = Some (- 1) \<and>
   (- 1 :: real) < 0 \<and>
   score (fst (calculate_score (sample_env []) (behavior_payload [(''failed_logins'', JNum 2)])
     (Some [(''failed_logins'', - 1), (''typing_speed'', 3)]) [])) \<le>
   score (fst (calculate_score (sample_env []) (behavior_payload [(''failed_logins'', JNum 1)])
     (Some [(''failed_logins'', - 1), (''typing_speed'', 3)]) []))"
  using
    C8_monotone [where E = "sample_env []"
      and pl = "behavior_payload [(''failed_logins'', JNum 1)]"
      and pl' = "behavior_payload [(''failed_logins'', JNum 2)]"
      and xs = "[]" and ys = "[]" and k = "''failed_logins''" and v = "Num 1" and v' = "Num 2"
      and weights = "Some [(''failed_logins'', 1), (''typing_speed'', 3)]" and wk = 1
      and lg = "[]"]
    C8_monotone [where E = "sample_env []"
      and pl = "behavior_payload [(''failed_logins'', JNum 1)]"
      and pl' = "behavior_payload [(''failed_logins'', JNum 2)]"
      and xs = "[]" and ys = "[]" and k = "''failed_logins''" and v = "Num 1" and v' = "Num 2"
      and weights = "Some [(''failed_logins'', - 1), (''typing_speed'', 3)]" and wk = "- 1"
      and lg = "[]"]
  by (simp add: sample_env_fields sample_extract_behavior ex2_raw)

text \<open>
  A feature with a negative value under a positive weight: from \<open>-1\<close> to \<open>-3\<close> the magnitude
  grows and the score falls from 25 to 0.
\<close>

lemma ex4_raw:
  "raw_of (sample_env dw) (behavior_payload [(''clock_skew'', JNum x)])
     (Some ((''clock_skew'', y) # ws)) = x * y"
  "effective_weights (sample_env dw) (Some ((''clock_skew'', y) # ws)) =
     (''clock_skew'', y) # ws"
  by (simp_all add: raw_of_def effective_weights_def sample_env_fields
      sample_extract_behavior weighted_sum_spec_def)

theorem C8_magnitude_counterexample:
  "extract_all_features (sample_env []) (behavior_payload [(''clock_skew'', JNum (- 1))]) =
     [(''clock_skew'', Num (- 1))] \<and>
   extract_all_features (sample_env []) (behavior_payload [(''clock_skew'', JNum (- 3))]) =
     [(''clock_skew'', Num (- 3))] \<and>
   \<bar>fnum (Num (- 1))\<bar> < \<bar>fnum (Num (- 3))\<bar> \<and>
   map_of (effective_weights (sample_env [])
     (Some [(''clock_skew'', 1), (''typing_speed'', 3)])) ''clock_skew'' = Some 1 \<and>
   (0 :: real) < 1 \<and>
   score (fst (calculate_score (sample_env []) (behavior_payload [(''clock_skew'', JNum (- 1))])
     (Some [(''clock_skew'', 1), (''typing_speed'', 3)]) [])) = 25 \<and>
   score (fst (calculate_score (sample_env []) (behavior_payload [(''clock_skew'', JNum (- 3))])
     (Some [(''clock_skew'', 1), (''typing_speed'', 3)]) [])) = 0 \<and>
   \<not> score (fst (calculate_score (sample_env [])
       (behavior_payload [(''clock_skew'', JNum (- 1))])
       (Some [(''clock_skew'', 1), (''typing_speed'', 3)]) [])) \<le>
     score (fst (calculate_score (sample_env [])
       (behavior_payload [(''clock_skew'', JNum (- 3))])
       (Some [(''clock_skew'', 1), (''typing_speed'', 3)]) []))"
  by (simp add: score_calculate_score ex4_raw dynamic_max_def calibrate_score_def
      py_round_def Let_def sample_env_fields sample_extract_behavior)

text \<open>The two scores of the positive-weight instance.\<close>

lemma monotone_example_values:
  "score (fst (calculate_score (sample_env []) (behavior_payload [(''failed_logins'', JNum 1)])
     (Some [(''failed_logins'', 1), (''typing_speed'', 3)]) [])) = 75"
  "score (fst (calculate_score (sample_env []) (behavior_payload [(''failed_logins'', JNum 2)])
     (Some [(''failed_logins'', 1), (''typing_speed'', 3)]) [])) = 100"
  by (simp_all add: score_calculate_score ex2_raw dynamic_max_def calibrate_score_def
      py_round_def Let_def)

subsection \<open>The ranking of the specification\<close>

lemma set_rank_insert: "set (rank_insert c ds) = insert c (set ds)"
  by (induction ds) auto

lemma sorted_rank_insert:
  "sorted_wrt (\<lambda>a b. \<bar>snd b\<bar> \<le> \<bar>snd a\<bar>) ds \<Longrightarrow>
   sorted_wrt (\<lambda>a b. \<bar>snd b\<bar> \<le> \<bar>snd a\<bar>) (rank_insert c ds)"
  by (induction ds) (auto simp: set_rank_insert)

lemma ranked_Cons: "ranked (c # cs) = rank_insert c (ranked cs)"
  by (simp add: ranked_def)

lemma sorted_ranked: "sorted_wrt (\<lambda>a b. \<bar>snd b\<bar> \<le> \<bar>snd a\<bar>) (ranked cs)"
  by (induction cs) (simp_all add: ranked_Cons sorted_rank_insert, simp add: ranked_def)

lemma filter_rank_insert:
  "filter (\<lambda>d. \<bar>snd d\<bar> = m) (rank_insert c ds) = filter (\<lambda>d. \<bar>snd d\<bar> = m) (c # ds)"
  by (induction ds) auto

lemma ranked_stable:
  "filter (\<lambda>d. \<bar>snd d\<bar> = m) (ranked cs) = filter (\<lambda>d. \<bar>snd d\<bar> = m) cs"
proof (induction cs)
  case Nil
  show ?case by (simp add: ranked_def)
next
  case (Cons c cs)
  then show ?case by (simp add: ranked_Cons filter_rank_insert)
qed

lemma length_ranked: "length (ranked cs) = length cs"
proof (induction cs)
  case Nil
  show ?case by (simp add: ranked_def)
next
  case (Cons c cs)
  have "length (rank_insert c ds) = Suc (length ds)" for ds
    by (induction ds) auto
  with Cons show ?case by (simp add: ranked_Cons)
qed

lemma set_ranked: "set (ranked cs) = set cs"
proof (induction cs)
  case Nil
  show ?case by (simp add: ranked_def)
next
  case (Cons c cs)
  then show ?case by (simp add: ranked_Cons set_rank_insert)
qed

lemma by_magnitude_top: "by_magnitude (top_reason_codes_spec cs k)"
proof -
  have "sorted_wrt (\<lambda>a b. \<bar>snd b\<bar> \<le> \<bar>snd a\<bar>) (take k (ranked cs))"
    using sorted_ranked by (rule sorted_wrt_take)
  then show ?thesis
    by (simp add: by_magnitude_def top_reason_codes_spec_def sorted_wrt_map to_reason_def)
qed

lemma length_top: "length (top_reason_codes_spec cs k) \<le> k"
  by (simp add: top_reason_codes_spec_def)

lemma magnitude_top:
  assumes "r \<in> set (top_reason_codes_spec cs k)"
  shows "\<exists>c \<in> set cs. contribution r = snd c"
proof -
  from assms obtain c where "c \<in> set (take k (ranked cs))" and "r = to_reason c"
    by (auto simp: top_reason_codes_spec_def)
  then have "c \<in> set cs" and "contribution r = snd c"
    using set_ranked [of cs] in_set_takeD [of c k "ranked cs"] by (auto simp: to_reason_def)
  then show ?thesis by blast
qed

lemma ex3_contributions:
  "contributions_of (sample_env [])
     (behavior_payload [(''revoked_credential'', JBool True), (''f1'', JNum 1),
        (''f2'', JNum (- 3)), (''f3'', JNum 3), (''f4'', JNum 2), (''f5'', JNum 5),
        (''f6'', JNum 4), (''f7'', JNum 1)])
     (Some [(''f1'', 1), (''f2'', 1), (''f3'', 1), (''f4'', 1), (''f5'', 1), (''f6'', 1),
        (''f7'', 1)]) =
   [(''f1'', 1), (''f2'', - 3), (''f3'', 3), (''f4'', 2), (''f5'', 5), (''f6'', 4), (''f7'', 1)]"
  by (simp add: contributions_of_def effective_weights_def sample_env_fields
      sample_extract_behavior weighted_sum_spec_def)

lemma ex3_fired:
  "fired_of (sample_env [])
     (behavior_payload [(''revoked_credential'', JBool True), (''f1'', JNum 1),
        (''f2'', JNum (- 3)), (''f3'', JNum 3), (''f4'', JNum 2), (''f5'', JNum 5),
        (''f6'', JNum 4), (''f7'', JNum 1)])"
  "hard_code_of (sample_env [])
     (behavior_payload [(''revoked_credential'', JBool True), (''f1'', JNum 1),
        (''f2'', JNum (- 3)), (''f3'', JNum 3), (''f4'', JNum 2), (''f5'', JNum 5),
        (''f6'', JNum 4), (''f7'', JNum 1)]) = ''REVOKED_CREDENTIAL''"
  by (simp_all add: fired_of_def hard_code_of_def sample_env_fields sample_extract_behavior
      sample_rules_def)

lemma ex3_top:
  "top_reason_codes_spec
     [(''f1'', 1), (''f2'', - 3), (''f3'', 3), (''f4'', 2), (''f5'', 5), (''f6'', 4), (''f7'', 1)]
     5 =
   [\<lparr>code = ''f5'', contribution = 5\<rparr>, \<lparr>code = ''f6'', contribution = 4\<rparr>,
    \<lparr>code = ''f2'', contribution = - 3\<rparr>, \<lparr>code = ''f3'', contribution = 3\<rparr>,
    \<lparr>code = ''f4'', contribution = 2\<rparr>]"
  by (simp add: top_reason_codes_spec_def ranked_def to_reason_def)

subsection \<open>Order and length of the reason codes\<close>

text \<open>
  C9 (as amended). With the ranking of the specification, the reason codes are the synthetic
  code of the fired rule, if one fired, followed by at most \<open>top_k = 5\<close> weighted reason
  codes; the weighted ones are sorted by descending absolute contribution, contributions of
  equal magnitude in their original computation order; the length is at most 5, or at most
  6 when a rule fired; the whole list is sorted by descending absolute contribution when no
  rule fired, and also when no weighted contribution exceeds the sentinel's magnitude 999.
\<close>

theorem C9_reason_codes_ranked:
  assumes "top_reason_codes E = top_reason_codes_spec"
  shows "reason_codes (fst (calculate_score E pl weights lg)) =
      (if fired_of E pl
       then \<lparr>code = hard_code_of E pl, contribution = - 999\<rparr> #
            top_reason_codes_spec (contributions_of E pl weights) 5
       else top_reason_codes_spec (contributions_of E pl weights) 5) \<and>
    by_magnitude (top_reason_codes_spec (contributions_of E pl weights) 5) \<and>
    filter (\<lambda>d. \<bar>snd d\<bar> = m) (ranked (contributions_of E pl weights)) =
      filter (\<lambda>d. \<bar>snd d\<bar> = m) (contributions_of E pl weights) \<and>
    length (reason_codes (fst (calculate_score E pl weights lg))) \<le>
      (if fired_of E pl then 6 else 5) \<and>
    (\<not> fired_of E pl \<longrightarrow> by_magnitude (reason_codes (fst (calculate_score E pl weights lg)))) \<and>
    ((\<forall>c \<in> set (contributions_of E pl weights). \<bar>snd c\<bar> \<le> 999) \<longrightarrow>
       by_magnitude (reason_codes (fst (calculate_score E pl weights lg))))"
proof -
  define cs where "cs = contributions_of E pl weights"
  define top where "top = top_reason_codes_spec cs 5"
  have rc: "reason_codes (fst (calculate_score E pl weights lg)) =
      (if fired_of E pl then \<lparr>code = hard_code_of E pl, contribution = - 999\<rparr> # top else top)"
    by (simp add: reason_codes_calculate_score assms cs_def top_def)
  have sorted: "by_magnitude top"
    unfolding top_def by (rule by_magnitude_top)
  have len: "length top \<le> 5"
    unfolding top_def by (rule length_top)
  have whole: "by_magnitude (\<lparr>code = hard_code_of E pl, contribution = - 999\<rparr> # top)"
    if "\<forall>c \<in> set cs. \<bar>snd c\<bar> \<le> 999"
  proof -
    have "\<bar>contribution r\<bar> \<le> 999" if "r \<in> set top" for r
      using magnitude_top [of r cs 5] that \<open>\<forall>c \<in> set cs. \<bar>snd c\<bar> \<le> 999\<close>
      by (auto simp: top_def)
    then show ?thesis
      using sorted by (simp add: by_magnitude_def)
  qed
  show ?thesis
    unfolding cs_def [symmetric] top_def [symmetric] rc
    using sorted len whole ranked_stable [of m cs] by simp
qed

theorem C9_reason_codes_ranked_witness:
  "top_reason_codes (sample_env []) = top_reason_codes_spec \<and>
   reason_codes (fst (calculate_score (sample_env [])
     (behavior_payload [(''revoked_credential'', JBool True), (''f1'', JNum 1),
        (''f2'', JNum (- 3)), (''f3'', JNum 3), (''f4'', JNum 2), (''f5'', JNum 5),
        (''f6'', JNum 4), (''f7'', JNum 1)])
     (Some [(''f1'', 1), (''f2'', 1), (''f3'', 1), (''f4'', 1), (''f5'', 1), (''f6'', 1),
        (''f7'', 1)]) [])) =
   [\<lparr>code = ''REVOKED_CREDENTIAL'', contribution = - 999\<rparr>,
    \<lparr>code = ''f5'', contribution = 5\<rparr>, \<lparr>code = ''f6'', contribution = 4\<rparr>,
    \<lparr>code = ''f2'', contribution = - 3\<rparr>, \<lparr>code = ''f3'', contribution = 3\<rparr>,
    \<lparr>code = ''f4'', contribution = 2\<rparr>] \<and>
   \<bar>snd (''f5'', 5 :: real)\<bar> \<le> 999 \<and>
   by_magnitude (reason_codes (fst (calculate_score (sample_env [])
     (behavior_payload [(''revoked_credential'', JBool True), (''f1'', JNum 1),
        (''f2'', JNum (- 3)), (''f3'', JNum 3), (''f4'', JNum 2), (''f5'', JNum 5),
        (''f6'', JNum 4), (''f7'', JNum 1)])
     (Some [(''f1'', 1), (''f2'', 1), (''f3'', 1), (''f4'', 1), (''f5'', 1), (''f6'', 1),
        (''f7'', 1)]) []))) \<and>
   \<not> fired_of (sample_env []) (behavior_payload []) \<and>
   by_magnitude (reason_codes (fst (calculate_score (sample_env []) (behavior_payload [])
     None [])))"
  using
    C9_reason_codes_ranked [where E = "sample_env []"
      and pl = "behavior_payload [(''revoked_credential'', JBool True), (''f1'', JNum 1),
        (''f2'', JNum (- 3)), (''f3'', JNum 3), (''f4'', JNum 2), (''f5'', JNum 5),
        (''f6'', JNum 4), (''f7'', JNum 1)]"
      and weights = "Some [(''f1'', 1), (''f2'', 1), (''f3'', 1), (''f4'', 1), (''f5'', 1),
        (''f6'', 1), (''f7'', 1)]" and lg = "[]" and m = 3]
    C9_reason_codes_ranked [where E = "sample_env []" and pl = "behavior_payload []"
      and weights = None and lg = "[]" and m = 3]
  by (simp add: sample_env_fields ex3_contributions ex3_fired ex3_top fired_of_def
      sample_extract_behavior sample_rules_def by_magnitude_def)

text \<open>
  With a weight of 1000 on a flag that is set, the sentinel of magnitude 999 stands in front
  of a contribution of magnitude 1000: the list is not in descending order.
\<close>

theorem C9_order_counterexample:
  "fired_of (sample_env []) (behavior_payload [(''revoked_credential'', JBool True)]) \<and>
   reason_codes (fst (calculate_score (sample_env [])
      (behavior_payload [(''revoked_credential'', JBool True)])
      (Some [(''revoked_credential'', 1000)]) [])) =
     [\<lparr>code = ''REVOKED_CREDENTIAL'', contribution = - 999\<rparr>,
      \<lparr>code = ''revoked_credential'', contribution = 1000\<rparr>] \<and>
   \<not> by_magnitude (reason_codes (fst (calculate_score (sample_env [])
      (behavior_payload [(''revoked_credential'', JBool True)])
      (Some [(''revoked_credential'', 1000)]) [])))"
  by (simp add: ex1_fired ex1_raw reason_codes_calculate_score sample_env_fields
      top_reason_codes_spec_def ranked_def to_reason_def by_magnitude_def)

subsection \<open>Determinism\<close>

lemma write_log_simps:
  "module_weights (write_log ev s) = module_weights s"
  "heap (write_log ev s) = heap s"
  "module_weights (insert_front a r s) = module_weights s"
  "heap (insert_front a r s) a = r # heap s a"
  "weights_in_force weights (write_log ev s) = weights_in_force weights s"
  by (simp_all add: write_log_def insert_front_def weights_in_force_def split: option.split)

lemma result_calculate_score_st:
  assumes "pure_collaborators C"
  shows "fst (calculate_score_st C pl weights s) =
     (let w = weights_in_force weights s;
          features = fst (extract_st C pl blank);
          fired_rule = fst (fst (rules_st C features blank));
          hard_code = snd (fst (rules_st C features blank));
          score_raw = fst (fst (weighted_sum_st C features w blank));
          contributions = snd (fst (weighted_sum_st C features w blank));
          sc = calibrate_score score_raw (dynamic_max w);
          top = heap (snd (top_reason_codes_st C contributions 5 blank))
                  (fst (top_reason_codes_st C contributions 5 blank))
      in \<lparr>score = sc, status = fst (map_to_status_action sc),
           recommended_action = snd (map_to_status_action sc),
           reason_codes = (if fired_rule
                           then \<lparr>code = hard_code, contribution = - 999\<rparr> # top else top),
           metadata = \<lparr>model_version = ''v0.1.0'', hard_rule_fired = fired_rule,
             context = (case pl ''context'' of None \<Rightarrow> JObj [] | Some c \<Rightarrow> c)\<rparr>\<rparr>)"
    and "module_weights (snd (calculate_score_st C pl weights s)) = module_weights s"
proof -
  define ex where "ex pl = fst (extract_st C pl blank)" for pl
  define ru where "ru fs = fst (rules_st C fs blank)" for fs
  define ws where "ws fs w = fst (weighted_sum_st C fs w blank)" for fs w
  define tp where
    "tp cs k = heap (snd (top_reason_codes_st C cs k blank))
       (fst (top_reason_codes_st C cs k blank))" for cs k
  have pure:
    "fst (extract_st C pl s) = ex pl"
    "fst (rules_st C fs s) = ru fs"
    "fst (weighted_sum_st C fs w s) = ws fs w"
    "heap (snd (top_reason_codes_st C cs k s)) (fst (top_reason_codes_st C cs k s)) = tp cs k"
    for pl fs w cs k s
  proof -
    show "fst (extract_st C pl s) = ex pl"
      using assms unfolding pure_collaborators_def ex_def by meson
    show "fst (rules_st C fs s) = ru fs"
      using assms unfolding pure_collaborators_def ru_def by meson
    show "fst (weighted_sum_st C fs w s) = ws fs w"
      using assms unfolding pure_collaborators_def ws_def by meson
    show "heap (snd (top_reason_codes_st C cs k s)) (fst (top_reason_codes_st C cs k s)) =
        tp cs k"
      using assms unfolding pure_collaborators_def tp_def by meson
  qed
  have frame:
    "module_weights (snd (extract_st C pl s)) = module_weights s"
    "module_weights (snd (rules_st C fs s)) = module_weights s"
    "module_weights (snd (weighted_sum_st C fs w s)) = module_weights s"
    "module_weights (snd (top_reason_codes_st C cs k s)) = module_weights s"
    for pl fs w cs k s
    using assms unfolding pure_collaborators_def by simp_all
  have wf:
    "weights_in_force weights (snd (extract_st C pl s)) = weights_in_force weights s"
    "weights_in_force weights (snd (rules_st C fs s)) = weights_in_force weights s"
    "weights_in_force weights (snd (weighted_sum_st C fs w s)) = weights_in_force weights s"
    for pl fs w s
    by (simp_all add: weights_in_force_def frame split: option.split)
  show "module_weights (snd (calculate_score_st C pl weights s)) = module_weights s"
    by (simp add: calculate_score_st_def Let_def case_prod_beta write_log_simps frame)
  show "fst (calculate_score_st C pl weights s) =
     (let w = weights_in_force weights s;
          features = fst (extract_st C pl blank);
          fired_rule = fst (fst (rules_st C features blank));
          hard_code = snd (fst (rules_st C features blank));
          score_raw = fst (fst (weighted_sum_st C features w blank));
          contributions = snd (fst (weighted_sum_st C features w blank));
          sc = calibrate_score score_raw (dynamic_max w);
          top = heap (snd (top_reason_codes_st C contributions 5 blank))
                  (fst (top_reason_codes_st C contributions 5 blank))
      in \<lparr>score = sc, status = fst (map_to_status_action sc),
           recommended_action = snd (map_to_status_action sc),
           reason_codes = (if fired_rule
                           then \<lparr>code = hard_code, contribution = - 999\<rparr> # top else top),
           metadata = \<lparr>model_version = ''v0.1.0'', hard_rule_fired = fired_rule,
             context = (case pl ''context'' of None \<Rightarrow> JObj [] | Some c \<Rightarrow> c)\<rparr>\<rparr>)"
    unfolding ex_def [symmetric] ru_def [symmetric] ws_def [symmetric] tp_def [symmetric]
    by (simp add: calculate_score_st_def Let_def case_prod_beta write_log_simps pure wf
        dynamic_max_def)
qed

lemma pure_lift: "pure_collaborators (lift E)"
  by (simp add: pure_collaborators_def lift_def fresh_list_def)

lemma weights_in_force_cong:
  "module_weights t = module_weights s \<Longrightarrow>
   weights_in_force weights t = weights_in_force weights s"
  by (simp add: weights_in_force_def split: option.split)

lemma effective_weights_module:
  "effective_weights (E\<lparr>DEFAULT_WEIGHTS := module_weights s\<rparr>) weights =
     weights_in_force weights s"
  by (simp add: effective_weights_def weights_in_force_def split: option.split)

lemma calculate_score_st_lift:
  "fst (calculate_score_st (lift E) pl weights s) =
     fst (calculate_score (E\<lparr>DEFAULT_WEIGHTS := module_weights s\<rparr>) pl weights lg)"
proof -
  let ?E = "E\<lparr>DEFAULT_WEIGHTS := module_weights s\<rparr>"
  let ?r = "fst (calculate_score ?E pl weights lg)"
  have "fst (calculate_score_st (lift E) pl weights s) =
      \<lparr>score = score ?r, status = status ?r, recommended_action = recommended_action ?r,
       reason_codes = reason_codes ?r, metadata = metadata ?r\<rparr>"
    unfolding result_calculate_score_st(1) [OF pure_lift]
    by (simp add: Let_def lift_def fresh_list_def status_of_score score_calculate_score
        reason_codes_calculate_score metadata_calculate_score raw_of_def contributions_of_def
        fired_of_def hard_code_of_def effective_weights_module)
  then show ?thesis
    by simp
qed

text \<open>
  C7. \<open>calculate_score\<close> is deterministic: with collaborators that are deterministic and
  leave the shared configuration alone, a second run on the same payload and weights,
  started in the state the first run left behind, returns a result equal to the first in
  every field (score, status, recommended action, reason codes in their order, metadata);
  more generally two runs started in any two states that agree on \<^verbatim>\<open>DEFAULT_WEIGHTS\<close>
  return equal results. The function itself reads no state but \<^verbatim>\<open>DEFAULT_WEIGHTS\<close>, writes
  only to the logger and inserts only into the list it was just given.
\<close>

theorem C7_deterministic:
  assumes "pure_collaborators C"
  shows "fst (calculate_score_st C pl weights (snd (calculate_score_st C pl weights s))) =
      fst (calculate_score_st C pl weights s) \<and>
    (module_weights s' = module_weights s \<longrightarrow>
      fst (calculate_score_st C pl weights s') = fst (calculate_score_st C pl weights s))"
proof -
  have same: "fst (calculate_score_st C pl weights t) = fst (calculate_score_st C pl weights s)"
    if "module_weights t = module_weights s" for t
    by (simp add: result_calculate_score_st(1) [OF assms] weights_in_force_cong [OF that])
  have "module_weights (snd (calculate_score_st C pl weights s)) = module_weights s"
    by (rule result_calculate_score_st(2) [OF assms])
  with same show ?thesis
    by blast
qed

lemma sample_env_update: "(sample_env dw)\<lparr>DEFAULT_WEIGHTS := dw'\<rparr> = sample_env dw'"
  by (simp add: sample_env_def)

lemma ex1_reasons:
  "reason_codes (fst (calculate_score (sample_env dw)
      (behavior_payload [(''revoked_credential'', JBool True)])
      (Some [(''revoked_credential'', 1)]) lg)) =
   [\<lparr>code = ''REVOKED_CREDENTIAL'', contribution = - 999\<rparr>,
    \<lparr>code = ''revoked_credential'', contribution = 1\<rparr>]"
  by (simp add: reason_codes_calculate_score ex1_fired ex1_raw sample_env_fields
      top_reason_codes_spec_def ranked_def to_reason_def)

theorem C7_deterministic_witness:
  "pure_collaborators (lift (sample_env [])) \<and>
   fst (calculate_score_st (lift (sample_env []))
     (behavior_payload [(''revoked_credential'', JBool True)])
     (Some [(''revoked_credential'', 1)])
     (snd (calculate_score_st (lift (sample_env []))
       (behavior_payload [(''revoked_credential'', JBool True)])
       (Some [(''revoked_credential'', 1)]) blank))) =
   fst (calculate_score_st (lift (sample_env []))
     (behavior_payload [(''revoked_credential'', JBool True)])
     (Some [(''revoked_credential'', 1)]) blank) \<and>
   module_weights (blank\<lparr>hidden := 7\<rparr>) = module_weights blank \<and>
   fst (calculate_score_st (lift (sample_env []))
     (behavior_payload [(''revoked_credential'', JBool True)])
     (Some [(''revoked_credential'', 1)]) (blank\<lparr>hidden := 7\<rparr>)) =
   fst (calculate_score_st (lift (sample_env []))
     (behavior_payload [(''revoked_credential'', JBool True)])
     (Some [(''revoked_credential'', 1)]) blank) \<and>
   reason_codes (fst (calculate_score_st (lift (sample_env []))
     (behavior_payload [(''revoked_credential'', JBool True)])
     (Some [(''revoked_credential'', 1)]) blank)) =
   [\<lparr>code = ''REVOKED_CREDENTIAL'', contribution = - 999\<rparr>,
    \<lparr>code = ''revoked_credential'', contribution = 1\<rparr>]"
  using C7_deterministic [OF pure_lift, where E1 = "sample_env []"
      and pl = "behavior_payload [(''revoked_credential'', JBool True)]"
      and weights = "Some [(''revoked_credential'', 1)]" and s = blank
      and s' = "blank\<lparr>hidden := 7\<rparr>"]
    calculate_score_st_lift [where E = "sample_env []"
      and pl = "behavior_payload [(''revoked_credential'', JBool True)]"
      and weights = "Some [(''revoked_credential'', 1)]" and s = blank and lg = "[]"]
  by (simp add: pure_lift sample_env_update ex1_reasons)

text \<open>
  The hypothesis on \<^verbatim>\<open>top_reason_codes\<close> is needed because of line 107: with a collaborator
  that hands out one cached list object, the in-place insert of the first run is seen by the
  second, whose reason codes carry the synthetic code twice.
\<close>

lemma caching_second_run:
  "reason_codes (fst (calculate_score_st (caching (sample_env []))
     (behavior_payload [(''revoked_credential'', JBool True)])
     (Some [(''revoked_credential'', 1)]) blank)) =
   [\<lparr>code = ''REVOKED_CREDENTIAL'', contribution = - 999\<rparr>,
    \<lparr>code = ''revoked_credential'', contribution = 1\<rparr>]"
  "reason_codes (fst (calculate_score_st (caching (sample_env []))
     (behavior_payload [(''revoked_credential'', JBool True)])
     (Some [(''revoked_credential'', 1)])
     (snd (calculate_score_st (caching (sample_env []))
       (behavior_payload [(''revoked_credential'', JBool True)])
       (Some [(''revoked_credential'', 1)]) blank)))) =
   [\<lparr>code = ''REVOKED_CREDENTIAL'', contribution = - 999\<rparr>,
    \<lparr>code = ''REVOKED_CREDENTIAL'', contribution = - 999\<rparr>,
    \<lparr>code = ''revoked_credential'', contribution = 1\<rparr>]"
  by (simp_all add: calculate_score_st_def Let_def case_prod_beta caching_def lift_def
      cached_list_def write_log_def insert_front_def weights_in_force_def blank_def
      sample_env_fields sample_extract_behavior sample_rules_def weighted_sum_spec_def
      top_reason_codes_spec_def ranked_def to_reason_def)

end
